theory Spec2Isabelle
  imports Complex_Main
begin

section \<open>Values of the program\<close>

text \<open>
  The program (\<^verbatim>\<open>app/main.py\<close>) handles decoded JSON documents of the transit, geocoding
  and mail services as untyped Python values. They are modelled by the datatype below; an
  object is an association list read with \<open>map_of\<close> (a decoded object has distinct keys).
  Text is a \<open>string\<close> of ASCII characters. A Python float is carried as the real number it
  denotes; the program never computes with one.
\<close>

datatype json =
    JNull
  | JBool bool
  | JNum real
  | JStr string
  | JList "json list"
  | JDict "(string \<times> json) list"

text \<open>The exceptions that the modelled code can raise; \<open>Inl\<close> of a result carries one.\<close>

datatype pyerr =
    TypeError
  | ValueError
  | KeyError
  | IndexError
  | AttributeError
  | OverflowError
  | JSONDecodeError
  | HTTPException nat string
  | HTTPStatusError nat
  | RequestError string
  | UniqueViolation

text \<open>Python's truth value of an object (\<^verbatim>\<open>if x\<close>, \<^verbatim>\<open>not x\<close>, \<^verbatim>\<open>x or y\<close>).\<close>

fun truthy :: "json \<Rightarrow> bool" where
  "truthy JNull = False"
| "truthy (JBool b) = b"
| "truthy (JNum r) = (r \<noteq> 0)"
| "truthy (JStr s) = (s \<noteq> [])"
| "truthy (JList xs) = (xs \<noteq> [])"
| "truthy (JDict kvs) = (kvs \<noteq> [])"

text \<open>\<^verbatim>\<open>x or d\<close>\<close>

definition py_or :: "json \<Rightarrow> json \<Rightarrow> json" where
  "py_or x d = (if truthy x then x else d)"

text \<open>\<^verbatim>\<open>x.get(k)\<close>: only a dict has the method; a missing key gives \<^verbatim>\<open>None\<close>.\<close>

fun py_get :: "json \<Rightarrow> string \<Rightarrow> pyerr + json" where
  "py_get (JDict kvs) k = Inr (case map_of kvs k of None \<Rightarrow> JNull | Some v \<Rightarrow> v)"
| "py_get _ k = Inl AttributeError"

text \<open>\<^verbatim>\<open>x.get(k, {})\<close>\<close>

fun py_get_dflt :: "json \<Rightarrow> string \<Rightarrow> json \<Rightarrow> pyerr + json" where
  "py_get_dflt (JDict kvs) k d = Inr (case map_of kvs k of None \<Rightarrow> d | Some v \<Rightarrow> v)"
| "py_get_dflt _ k d = Inl AttributeError"

text \<open>\<^verbatim>\<open>x[k]\<close> with a string key.\<close>

fun py_item :: "json \<Rightarrow> string \<Rightarrow> pyerr + json" where
  "py_item (JDict kvs) k = (case map_of kvs k of None \<Rightarrow> Inl KeyError | Some v \<Rightarrow> Inr v)"
| "py_item _ k = Inl TypeError"

text \<open>\<^verbatim>\<open>k in x\<close> with a string \<open>k\<close>: key of a dict, substring of a string, element of a list.\<close>

primrec has_infix :: "string \<Rightarrow> string \<Rightarrow> bool" where
  "has_infix p [] = (p = [])"
| "has_infix p (c # cs) = (take (length p) (c # cs) = p \<or> has_infix p cs)"

fun py_in :: "string \<Rightarrow> json \<Rightarrow> pyerr + bool" where
  "py_in k (JDict kvs) = Inr (map_of kvs k \<noteq> None)"
| "py_in k (JStr s) = Inr (has_infix k s)"
| "py_in k (JList xs) = Inr (JStr k \<in> set xs)"
| "py_in k _ = Inl TypeError"

text \<open>\<^verbatim>\<open>for x in v\<close>: the elements of a list, the keys of a dict, the characters of a string.\<close>

fun py_iter :: "json \<Rightarrow> pyerr + json list" where
  "py_iter (JList xs) = Inr xs"
| "py_iter (JDict kvs) = Inr (map (\<lambda>kv. JStr (fst kv)) kvs)"
| "py_iter (JStr s) = Inr (map (\<lambda>c. JStr [c]) s)"
| "py_iter _ = Inl TypeError"

text \<open>\<^verbatim>\<open>s.split(sep)\<close> for a one-character separator: never the empty list.\<close>

fun py_split :: "char \<Rightarrow> string \<Rightarrow> string list" where
  "py_split sep [] = [[]]"
| "py_split sep (c # cs) =
     (if c = sep then [] # py_split sep cs
      else (case py_split sep cs of
              [] \<Rightarrow> [[c]]
            | w # ws \<Rightarrow> (c # w) # ws))"

definition is_digit :: "char \<Rightarrow> bool" where
  "is_digit c = (c \<in> set ''0123456789'')"

text \<open>\<^verbatim>\<open>s.isdigit()\<close> on ASCII text: at least one character, all of them among \<^verbatim>\<open>0\<close> to
  \<^verbatim>\<open>9\<close>. (Python also counts digits of other scripts; they are not ASCII and lie outside
  the text modelled here.)\<close>

definition isdigit :: "string \<Rightarrow> bool" where
  "isdigit s = (s \<noteq> [] \<and> list_all is_digit s)"

section \<open>Location resolution\<close>

text \<open>
  A function that can raise returns \<open>pyerr + 'a\<close>. \<open>ebind m f\<close> runs \<open>f\<close> on the value of
  \<open>m\<close>, and passes on the exception when \<open>m\<close> raised.
\<close>

definition ebind :: "pyerr + 'a \<Rightarrow> ('a \<Rightarrow> pyerr + 'b) \<Rightarrow> pyerr + 'b" where
  "ebind m f = (case m of Inl e \<Rightarrow> Inl e | Inr v \<Rightarrow> f v)"

subsection \<open>\<^verbatim>\<open>extract_coords\<close>\<close>

text \<open>
  Python's \<^verbatim>\<open>float(x)\<close> is not modelled; it is the parameter \<open>fl\<close>, which converts
  a value or raises.

  \<open>coords_in\<close> is the fragment that \<^verbatim>\<open>extract_coords\<close> runs twice, on the candidate
  and on its nested location: \<^verbatim>\<open>if "latitude" in x and "longitude" in x: return
  float(x["latitude"]), float(x["longitude"])\<close>. Its result \<open>None\<close> says that the test was
  false.
\<close>

definition coords_in :: "(json \<Rightarrow> pyerr + real) \<Rightarrow> json \<Rightarrow> pyerr + (real \<times> real) option" where
  "coords_in fl x =
     ebind (py_in ''latitude'' x) (\<lambda>has_lat.
     ebind (if has_lat then py_in ''longitude'' x else Inr False) (\<lambda>both.
     if \<not> both then Inr None
     else
       ebind (py_item x ''latitude'') (\<lambda>la.
       ebind (fl la) (\<lambda>lat.
       ebind (py_item x ''longitude'') (\<lambda>lo.
       ebind (fl lo) (\<lambda>lon.
       Inr (Some (lat, lon))))))))"

definition extract_coords :: "(json \<Rightarrow> pyerr + real) \<Rightarrow> json \<Rightarrow> pyerr + (real \<times> real) option" where
  "extract_coords fl item =
     (if \<not> truthy item then Inr None
      else
        ebind (coords_in fl item) (\<lambda>direct.
        if direct \<noteq> None then Inr direct
        else
          ebind (py_get item ''location'') (\<lambda>l.
          coords_in fl (py_or l (JDict [])))))"

subsection \<open>\<^verbatim>\<open>normalize_stop_id\<close>\<close>

text \<open>The inner function \<^verbatim>\<open>pick_id\<close>.\<close>

fun pick_id :: "json \<Rightarrow> string option" where
  "pick_id (JStr s) =
     (if s = [] then None
      else (let l = last (py_split CHR '':'' s) in if l = [] then None else Some l))"
| "pick_id _ = None"

text \<open>One stage of the chain: \<^verbatim>\<open>x = pick_id(v); if x and x.isdigit(): return x\<close>.\<close>

definition digit_id :: "json \<Rightarrow> string option" where
  "digit_id v = (case pick_id v of None \<Rightarrow> None | Some s \<Rightarrow> if isdigit s then Some s else None)"

definition normalize_stop_id :: "json \<Rightarrow> pyerr + string option" where
  "normalize_stop_id item =
     (if \<not> truthy item then Inr None
      else
        ebind (py_get item ''ibnr'') (\<lambda>v1.
        if digit_id v1 \<noteq> None then Inr (digit_id v1)
        else
          ebind (py_get item ''id'') (\<lambda>v2.
          if digit_id v2 \<noteq> None then Inr (digit_id v2)
          else
            ebind (py_get item ''station'') (\<lambda>st.
            ebind (py_get (py_or st (JDict [])) ''id'') (\<lambda>v3.
            Inr (digit_id v3))))))"

subsection \<open>The services outside the program\<close>

text \<open>
  What an HTTP call made through \<^verbatim>\<open>httpx\<close> can come to: the response passed
  \<^verbatim>\<open>raise_for_status\<close> (its body as \<^verbatim>\<open>resp.json()\<close> decodes it, \<open>None\<close> when it
  is not JSON); \<^verbatim>\<open>raise_for_status\<close> raised \<^verbatim>\<open>HTTPStatusError\<close> (status and body text);
  or the request raised a \<^verbatim>\<open>RequestError\<close>, of the class named (a timeout is one).
\<close>

datatype http_outcome =
    Success "json option"
  | StatusError nat string
  | TransportError string

text \<open>
  A value of a query parameter: a Python value, or the \<^verbatim>\<open>isoformat()\<close> of a timestamp.
\<close>

datatype pval = PVal json | PIso int

text \<open>
  The surroundings of one run: the answers of the services to the requests the program
  may send (request headers are left out), the mail configuration read from the process
  environment, and the two Python conversions that are not modelled: \<^verbatim>\<open>float(x)\<close>, and
  \<^verbatim>\<open>str(x)\<close> of a value that is not a string, as an f-string applies it.
\<close>

record env =
  http_get :: "string \<Rightarrow> (string \<times> pval) list \<Rightarrow> http_outcome"
  http_post :: "string \<Rightarrow> json \<Rightarrow> http_outcome"
  py_float :: "json \<Rightarrow> pyerr + real"
  py_str :: "json \<Rightarrow> string"
  BREVO_API_KEY :: "string option"
  BREVO_SENDER_EMAIL :: "string option"
  BREVO_SENDER_NAME :: string

definition BVG_BASE_URL :: string where
  "BVG_BASE_URL = ''https://v6.bvg.transport.rest''"

definition NOMINATIM_URL :: string where
  "NOMINATIM_URL = ''https://nominatim.openstreetmap.org/search''"

definition BREVO_EMAIL_URL :: string where
  "BREVO_EMAIL_URL = ''https://api.brevo.com/v3/smtp/email''"

text \<open>\<^verbatim>\<open>bvg_get\<close>: both \<^verbatim>\<open>httpx\<close> exceptions are turned into \<^verbatim>\<open>HTTPException\<close>.\<close>

definition bvg_get :: "env \<Rightarrow> string \<Rightarrow> (string \<times> pval) list \<Rightarrow> pyerr + json" where
  "bvg_get ev path params =
     (case http_get ev (BVG_BASE_URL @ path) params of
        StatusError status body \<Rightarrow> Inl (HTTPException status body)
      | TransportError cls \<Rightarrow> Inl (HTTPException 502 (''BVG request failed: '' @ cls))
      | Success None \<Rightarrow> Inl JSONDecodeError
      | Success (Some j) \<Rightarrow> Inr j)"

subsection \<open>\<^verbatim>\<open>resolve_location\<close>\<close>

text \<open>The dict \<^verbatim>\<open>{"id": ..., "name": ..., "coords": ...}\<close> that the function returns.\<close>

record location =
  loc_id :: "string option"
  loc_name :: json
  loc_coords :: "(real \<times> real) option"

text \<open>Truth value of an optional string: \<^verbatim>\<open>None\<close> and \<^verbatim>\<open>""\<close> are false.\<close>

fun str_truthy :: "string option \<Rightarrow> bool" where
  "str_truthy None = False"
| "str_truthy (Some s) = (s \<noteq> [])"

text \<open>
  The first loop. \<open>Inr None\<close>: the loop ended without returning; \<open>Inr (Some l)\<close>: it
  returned \<open>l\<close>.
\<close>

fun first_with_id :: "(json \<Rightarrow> pyerr + real) \<Rightarrow> string \<Rightarrow> json list \<Rightarrow> pyerr + location option" where
  "first_with_id fl query [] = Inr None"
| "first_with_id fl query (item # items) =
     ebind (normalize_stop_id item) (\<lambda>stop_id.
     if str_truthy stop_id then
       ebind (extract_coords fl item) (\<lambda>coords.
       ebind (py_get item ''name'') (\<lambda>name.
       Inr (Some \<lparr>loc_id = stop_id, loc_name = py_or name (JStr query), loc_coords = coords\<rparr>)))
     else first_with_id fl query items)"

text \<open>The second loop.\<close>

fun first_with_coords :: "(json \<Rightarrow> pyerr + real) \<Rightarrow> string \<Rightarrow> json list \<Rightarrow> pyerr + location option" where
  "first_with_coords fl query [] = Inr None"
| "first_with_coords fl query (item # items) =
     ebind (extract_coords fl item) (\<lambda>coords.
     if coords \<noteq> None then
       ebind (py_get item ''name'') (\<lambda>name.
       Inr (Some \<lparr>loc_id = None, loc_name = py_or name (JStr query), loc_coords = coords\<rparr>))
     else first_with_coords fl query items)"

text \<open>\<^verbatim>\<open>data[0]\<close>\<close>

fun py_first :: "json \<Rightarrow> pyerr + json" where
  "py_first (JList (x # xs)) = Inr x"
| "py_first (JList []) = Inl IndexError"
| "py_first (JStr (c # cs)) = Inr (JStr [c])"
| "py_first (JStr []) = Inl IndexError"
| "py_first (JDict kvs) = Inl KeyError"
| "py_first _ = Inl TypeError"

text \<open>The geocoding fallback, the last part of \<^verbatim>\<open>resolve_location\<close>.\<close>

definition geocode_fallback :: "env \<Rightarrow> string \<Rightarrow> pyerr + location" where
  "geocode_fallback ev query =
     (case http_get ev NOMINATIM_URL
             [(''q'', PVal (JStr query)), (''format'', PVal (JStr ''json'')),
              (''limit'', PVal (JNum 1)), (''addressdetails'', PVal (JNum 0))] of
        TransportError cls \<Rightarrow> Inl (RequestError cls)
      | StatusError status body \<Rightarrow> Inl (HTTPStatusError status)
      | Success None \<Rightarrow> Inl JSONDecodeError
      | Success (Some data) \<Rightarrow>
          if \<not> truthy data then Inr \<lparr>loc_id = None, loc_name = JStr query, loc_coords = None\<rparr>
          else
            ebind (py_first data) (\<lambda>item.
            ebind (py_get item ''display_name'') (\<lambda>dn.
            ebind (py_item item ''lat'') (\<lambda>la.
            ebind (py_float ev la) (\<lambda>lat.
            ebind (py_item item ''lon'') (\<lambda>lo.
            ebind (py_float ev lo) (\<lambda>lon.
            Inr \<lparr>loc_id = None, loc_name = py_or dn (JStr query),
                 loc_coords = Some (lat, lon)\<rparr>)))))))"

definition resolve_location :: "env \<Rightarrow> string \<Rightarrow> pyerr + location" where
  "resolve_location ev query =
     ebind (bvg_get ev ''/locations''
              [(''query'', PVal (JStr query)), (''results'', PVal (JStr ''5''))]) (\<lambda>items.
     ebind (py_iter (py_or items (JList []))) (\<lambda>cands.
     ebind (first_with_id (py_float ev) query cands) (\<lambda>r1.
     case r1 of Some l \<Rightarrow> Inr l
     | None \<Rightarrow>
         ebind (first_with_coords (py_float ev) query cands) (\<lambda>r2.
         case r2 of Some l \<Rightarrow> Inr l
         | None \<Rightarrow> geocode_fallback ev query))))"

section \<open>Time and the stored records\<close>

text \<open>
  A \<^verbatim>\<open>datetime\<close> is the number of microseconds of civil time (the wall clock of the
  one timezone of the program) since the start of day 0; a \<^verbatim>\<open>date\<close> is the number of its
  day. Arithmetic with a \<^verbatim>\<open>timedelta\<close> is wall-clock arithmetic, as in Python for two
  values of one timezone.
\<close>

type_synonym datetime = int
type_synonym date = int

text \<open>
  Python tells a \<^verbatim>\<open>datetime\<close> that carries an offset from one that does not, and
  raises \<^verbatim>\<open>TypeError\<close> when it is asked to order one of each kind. \<^verbatim>\<open>datetime.now(TZ)\<close>
  carries an offset. The columns \<^verbatim>\<open>start_time\<close> and \<^verbatim>\<open>end_time\<close> are declared
  \<^verbatim>\<open>TIMESTAMP\<close> (\<^verbatim>\<open>init_db\<close>), without time zone, and the database driver reads such a
  value as a \<^verbatim>\<open>datetime\<close> without offset.
\<close>

datatype pydatetime = Naive datetime | Aware datetime

text \<open>\<^verbatim>\<open>a <= b\<close>; two values of the one timezone are ordered by their civil times.\<close>

fun dt_le :: "pydatetime \<Rightarrow> pydatetime \<Rightarrow> pyerr + bool" where
  "dt_le (Naive a) (Naive b) = Inr (a \<le> b)"
| "dt_le (Aware a) (Aware b) = Inr (a \<le> b)"
| "dt_le (Naive a) (Aware b) = Inl TypeError"
| "dt_le (Aware a) (Naive b) = Inl TypeError"

text \<open>\<^verbatim>\<open>a + timedelta(microseconds=k)\<close>\<close>

fun dt_add :: "pydatetime \<Rightarrow> int \<Rightarrow> pydatetime" where
  "dt_add (Naive a) k = Naive (a + k)"
| "dt_add (Aware a) k = Aware (a + k)"

definition minute_us :: int where
  "minute_us = 60000000"

definition day_us :: int where
  "day_us = 86400000000"

text \<open>\<^verbatim>\<open>timedelta(minutes=m)\<close>\<close>

definition minutes :: "int \<Rightarrow> int" where
  "minutes m = m * minute_us"

text \<open>\<^verbatim>\<open>dt.date()\<close>\<close>

definition date_of :: "datetime \<Rightarrow> date" where
  "date_of t = t div day_us"

text \<open>\<^verbatim>\<open>datetime.combine(day, time.min)\<close> and \<^verbatim>\<open>datetime.combine(day, time.max)\<close>\<close>

definition day_min :: "date \<Rightarrow> datetime" where
  "day_min d = d * day_us"

definition day_max :: "date \<Rightarrow> datetime" where
  "day_max d = d * day_us + (day_us - 1)"

text \<open>The day \<open>d\<close> at \<open>hh:mm\<close>.\<close>

definition at_time :: "date \<Rightarrow> int \<Rightarrow> int \<Rightarrow> datetime" where
  "at_time d hh mm = d * day_us + (hh * 60 + mm) * minute_us"

text \<open>The rows of the tables \<^verbatim>\<open>users\<close>, \<^verbatim>\<open>classes\<close> and \<^verbatim>\<open>user_preferences\<close>
  (\<^verbatim>\<open>init_db\<close>). \<^verbatim>\<open>end_time\<close> is optional: a table of an older layout gets the column
  by \<^verbatim>\<open>ADD COLUMN ... end_time TIMESTAMP\<close>, without \<^verbatim>\<open>NOT NULL\<close>.\<close>

record user =
  u_id :: int
  u_email :: string

record class_row =
  c_user_id :: int
  course_name :: string
  start_time :: datetime
  end_time :: "datetime option"
  location :: string

record pref_row =
  p_user_id :: int
  allow_ubahn :: bool
  allow_sbahn :: bool
  allow_regional :: bool
  allow_tram :: bool
  allow_bus :: bool
  timing_pref :: string
  arrival_time :: "string option"
  home_location :: "string option"

text \<open>What the jobs only read.\<close>

record db =
  users :: "user list"
  classes :: "class_row list"
  user_preferences :: "pref_row list"

text \<open>\<^verbatim>\<open>preferences_for_user\<close>: the row, or \<open>None\<close> for the empty dict \<^verbatim>\<open>{}\<close>.\<close>

definition preferences_for_user :: "db \<Rightarrow> int \<Rightarrow> pref_row option" where
  "preferences_for_user d uid = find (\<lambda>p. p_user_id p = uid) (user_preferences d)"

text \<open>\<^verbatim>\<open>classes_for_day\<close>: selected by \<^verbatim>\<open>start_time\<close>, ordered by it.\<close>

definition classes_for_day :: "db \<Rightarrow> int \<Rightarrow> date \<Rightarrow> class_row list" where
  "classes_for_day d uid day =
     sort_key start_time
       (filter (\<lambda>c. c_user_id c = uid \<and> day_min day \<le> start_time c \<and> start_time c \<le> day_max day)
          (classes d))"

text \<open>\<^verbatim>\<open>last_class_end\<close>: \<^verbatim>\<open>MAX(end_time)\<close> over the rows selected by \<^verbatim>\<open>end_time\<close>;
  the aggregate of no row is \<^verbatim>\<open>NULL\<close>.\<close>

definition day_ends :: "db \<Rightarrow> int \<Rightarrow> date \<Rightarrow> datetime list" where
  "day_ends d uid day =
     concat (map (\<lambda>c. case end_time c of
                         None \<Rightarrow> []
                       | Some e \<Rightarrow> if c_user_id c = uid \<and> day_min day \<le> e \<and> e \<le> day_max day
                                   then [e] else [])
                 (classes d))"

definition last_class_end :: "db \<Rightarrow> int \<Rightarrow> date \<Rightarrow> datetime option" where
  "last_class_end d uid day =
     (case day_ends d uid day of [] \<Rightarrow> None | e # es \<Rightarrow> Some (fold max es e))"

section \<open>Journey planning\<close>

subsection \<open>\<^verbatim>\<open>build_arrival_datetime\<close>\<close>

text \<open>
  \<^verbatim>\<open>int(s)\<close> on ASCII text: white space around (space, tab, line feed, vertical tab, form
  feed, carriage return), an optional sign, decimal digits with single underscores
  between them, and at most 4300 digits. \<open>None\<close> stands for \<^verbatim>\<open>ValueError\<close>.
\<close>

definition is_space :: "char \<Rightarrow> bool" where
  "is_space c = (c \<in> set [CHR 0x20, CHR 0x09, CHR 0x0A, CHR 0x0B, CHR 0x0C, CHR 0x0D])"

definition py_strip :: "string \<Rightarrow> string" where
  "py_strip s = rev (dropWhile is_space (rev (dropWhile is_space s)))"

definition digits_value :: "string \<Rightarrow> int" where
  "digits_value s = foldl (\<lambda>a c. 10 * a + (int (of_char c) - 48)) 0 s"

definition py_int :: "string \<Rightarrow> int option" where
  "py_int s =
     (let t = py_strip s;
          neg = (t \<noteq> [] \<and> hd t = CHR ''-'');
          body = (if t \<noteq> [] \<and> (hd t = CHR ''-'' \<or> hd t = CHR ''+'') then tl t else t);
          groups = py_split CHR ''_'' body
      in if list_all isdigit groups \<and> length (concat groups) \<le> 4300
         then Some ((if neg then - 1 else 1) * digits_value (concat groups))
         else None)"

text \<open>
  The guarded statement \<^verbatim>\<open>hh, mm = map(int, arrival_time_str.split(":"))\<close>: \<open>None\<close> when it
  raises (the number of parts is not two, or a part is not an integer).
\<close>

definition parse_hh_mm :: "string \<Rightarrow> (int \<times> int) option" where
  "parse_hh_mm s =
     (case py_split CHR '':'' s of
        [a, b] \<Rightarrow> (case py_int a of None \<Rightarrow> None
                   | Some hh \<Rightarrow> (case py_int b of None \<Rightarrow> None | Some mm \<Rightarrow> Some (hh, mm)))
      | _ \<Rightarrow> None)"

text \<open>An integer that the constructor of a timestamp can take as an argument: one that
  fits a C \<^verbatim>\<open>int\<close>.\<close>

definition fits_c_int :: "int \<Rightarrow> bool" where
  "fits_c_int v = (- 2147483648 \<le> v \<and> v \<le> 2147483647)"

text \<open>
  \<open>now\<close> is the value of \<^verbatim>\<open>datetime.now(TZ)\<close>, as civil time. The constructor
  \<^verbatim>\<open>datetime(y, m, d, hh, mm)\<close> stands outside the \<^verbatim>\<open>try\<close>: it raises \<^verbatim>\<open>OverflowError\<close>
  for an argument that does not fit a C \<^verbatim>\<open>int\<close>, and \<^verbatim>\<open>ValueError\<close> for an hour outside
  0..23 or a minute outside 0..59.
\<close>

definition build_arrival_datetime :: "datetime \<Rightarrow> string option \<Rightarrow> string \<Rightarrow> pyerr + datetime option" where
  "build_arrival_datetime now arrival_time_str timing =
     (if \<not> str_truthy arrival_time_str then Inr None
      else
        (case parse_hh_mm (the arrival_time_str) of
           None \<Rightarrow> Inr None
         | Some (hh, mm) \<Rightarrow>
             if \<not> (fits_c_int hh \<and> fits_c_int mm) then Inl OverflowError
             else if 0 \<le> hh \<and> hh \<le> 23 \<and> 0 \<le> mm \<and> mm \<le> 59 then
               (let target = at_time (date_of now) hh mm;
                    offset = (if timing = ''later'' then 10 else - 10)
                in Inr (Some (target + minutes offset)))
             else Inl ValueError))"

subsection \<open>\<^verbatim>\<open>build_journey\<close>\<close>

text \<open>\<^verbatim>\<open>str(b).lower()\<close> of a Boolean.\<close>

definition bool_param :: "bool \<Rightarrow> pval" where
  "bool_param b = PVal (JStr (if b then ''true'' else ''false''))"

text \<open>\<^verbatim>\<open>prefs.get(key, True)\<close> on a preference row or on \<^verbatim>\<open>{}\<close>.\<close>

definition pref_flag :: "(pref_row \<Rightarrow> bool) \<Rightarrow> pref_row option \<Rightarrow> bool" where
  "pref_flag field prefs = (case prefs of None \<Rightarrow> True | Some p \<Rightarrow> field p)"

text \<open>The entries \<^verbatim>\<open>from\<close>, \<^verbatim>\<open>to\<close>, ... of the query; \<open>None\<close> when the function returns
  \<^verbatim>\<open>None\<close> before any request.\<close>

definition endpoint_params :: "location \<Rightarrow> location \<Rightarrow> (string \<times> pval) list option" where
  "endpoint_params origin destination =
     (if str_truthy (loc_id origin) \<and> str_truthy (loc_id destination) then
        Some [(''from'', PVal (JStr (the (loc_id origin)))),
              (''to'', PVal (JStr (the (loc_id destination))))]
      else
        case (loc_coords origin, loc_coords destination) of
          (Some (olat, olon), Some (dlat, dlon)) \<Rightarrow>
            Some [(''from.latitude'', PVal (JNum olat)),
                  (''from.longitude'', PVal (JNum olon)),
                  (''from.name'', PVal (py_or (loc_name origin) (JStr ''Start''))),
                  (''to.latitude'', PVal (JNum dlat)),
                  (''to.longitude'', PVal (JNum dlon)),
                  (''to.name'', PVal (py_or (loc_name destination) (JStr ''Campus Jungfernsee'')))]
        | _ \<Rightarrow> None)"

text \<open>The result is a Python value: \<open>JNull\<close> is \<^verbatim>\<open>None\<close>.\<close>

definition build_journey :: "env \<Rightarrow> datetime \<Rightarrow> location \<Rightarrow> location \<Rightarrow> pref_row option \<Rightarrow> pyerr + json" where
  "build_journey ev now origin destination prefs =
     (case endpoint_params origin destination of
        None \<Rightarrow> Inr JNull
      | Some ends \<Rightarrow>
          ebind (build_arrival_datetime now
                   (case prefs of None \<Rightarrow> None | Some p \<Rightarrow> arrival_time p)
                   (case prefs of None \<Rightarrow> ''earlier'' | Some p \<Rightarrow> timing_pref p)) (\<lambda>arrival.
          ebind (bvg_get ev ''/journeys''
                   ([(''results'', PVal (JStr ''3'')), (''polylines'', PVal (JStr ''false''))]
                    @ ends
                    @ [(''products[subway]'', bool_param (pref_flag allow_ubahn prefs)),
                       (''products[suburban]'', bool_param (pref_flag allow_sbahn prefs)),
                       (''products[regional]'', bool_param (pref_flag allow_regional prefs)),
                       (''products[tram]'', bool_param (pref_flag allow_tram prefs)),
                       (''products[bus]'', bool_param (pref_flag allow_bus prefs))]
                    @ (case arrival of None \<Rightarrow> [] | Some t \<Rightarrow> [(''arrival'', PIso t)]))) (\<lambda>data.
          ebind (py_get data ''journeys'') (\<lambda>js.
          if \<not> truthy (py_or js (JList [])) then Inr JNull
          else py_first (py_or js (JList []))))))"

section \<open>The notification document\<close>

definition nl :: string where
  "nl = [CHR 0x0A]"

definition digit_char :: "int \<Rightarrow> char" where
  "digit_char k = ''0123456789'' ! nat k"

definition pad2 :: "int \<Rightarrow> string" where
  "pad2 n = [digit_char (n div 10), digit_char (n mod 10)]"

text \<open>\<^verbatim>\<open>dt.strftime("%H:%M")\<close>\<close>

definition strftime_HM :: "datetime \<Rightarrow> string" where
  "strftime_HM t =
     (let m = (t mod day_us) div minute_us in pad2 (m div 60) @ '':'' @ pad2 (m mod 60))"

text \<open>The body of the loop over the classes: the text added to \<^verbatim>\<open>class_rows\<close>.\<close>

definition class_row_html :: "class_row \<Rightarrow> string" where
  "class_row_html c =
     (let start_str = strftime_HM (start_time c);
          end_str = (case end_time c of None \<Rightarrow> [] | Some e \<Rightarrow> strftime_HM e);
          time_str = (if end_str \<noteq> [] then start_str @ ''-'' @ end_str else start_str)
      in ''<tr><td>'' @ time_str @ ''</td><td>'' @ course_name c @ ''</td><td>'' @ location c
         @ ''</td></tr>'')"

fun class_rows_loop :: "string \<Rightarrow> class_row list \<Rightarrow> string" where
  "class_rows_loop acc [] = acc"
| "class_rows_loop acc (c # cs) = class_rows_loop (acc @ class_row_html c) cs"

definition no_classes_row :: string where
  \<open>no_classes_row = ''<tr><td colspan='3'>No classes today.</td></tr>''\<close>

text \<open>\<^verbatim>\<open>x[11:16]\<close>\<close>

fun py_slice_11_16 :: "json \<Rightarrow> pyerr + json" where
  "py_slice_11_16 (JStr s) = Inr (JStr (take 5 (drop 11 s)))"
| "py_slice_11_16 (JList xs) = Inr (JList (take 5 (drop 11 xs)))"
| "py_slice_11_16 _ = Inl TypeError"

text \<open>A value in an f-string; \<open>str\<close> is \<^verbatim>\<open>str(x)\<close> for a value that is not a string.\<close>

fun fmt :: "(json \<Rightarrow> string) \<Rightarrow> json \<Rightarrow> string" where
  "fmt str (JStr s) = s"
| "fmt str v = str v"

text \<open>The body of the loop over the legs: the text added to \<^verbatim>\<open>leg_rows\<close>.\<close>

definition leg_row_html :: "(json \<Rightarrow> string) \<Rightarrow> json \<Rightarrow> pyerr + string" where
  "leg_row_html str leg =
     ebind (py_get leg ''departure'') (\<lambda>d.
     ebind (py_slice_11_16 (py_or d (JStr []))) (\<lambda>dep.
     ebind (py_get leg ''arrival'') (\<lambda>a.
     ebind (py_slice_11_16 (py_or a (JStr []))) (\<lambda>arr.
     ebind (py_get_dflt leg ''line'' (JDict [])) (\<lambda>line.
     ebind (py_get line ''name'') (\<lambda>line_name.
     ebind (if truthy line_name then Inr line_name
            else ebind (py_get leg ''mode'') (\<lambda>m. Inr (py_or m (JStr ''Travel'')))) (\<lambda>mode.
     ebind (py_get_dflt leg ''origin'' (JDict [])) (\<lambda>org.
     ebind (py_get org ''name'') (\<lambda>org_name.
     ebind (py_get_dflt leg ''destination'' (JDict [])) (\<lambda>dst.
     ebind (py_get dst ''name'') (\<lambda>dst_name.
     Inr (''<tr><td>'' @ fmt str mode @ ''</td><td>'' @ fmt str dep @ ''-'' @ fmt str arr
          @ ''</td><td>'' @ fmt str (py_or org_name (JStr ''Start''))
          @ '' '' @ [CHR 0xE2, CHR 0x86, CHR 0x92] @ '' ''
          @ fmt str (py_or dst_name (JStr ''End'')) @ ''</td></tr>''))))))))))))"

fun leg_rows_loop :: "(json \<Rightarrow> string) \<Rightarrow> string \<Rightarrow> json list \<Rightarrow> pyerr + string" where
  "leg_rows_loop str acc [] = Inr acc"
| "leg_rows_loop str acc (leg # legs) =
     ebind (leg_row_html str leg) (\<lambda>row. leg_rows_loop str (acc @ row) legs)"

definition route_head :: string where
  \<open>route_head =
     nl @ ''          <h3 style="margin:20px 0 8px;">Route to Campus Jungfernsee</h3>'' @ nl @
     ''          <table style="width:100%;border-collapse:collapse;">'' @ nl @
     ''            <tr><th align="left">Line</th><th align="left">Time</th><th align="left">Segment</th></tr>'' @ nl @
     ''            ''\<close>

definition route_foot :: string where
  \<open>route_foot =
     nl @ ''          </table>'' @ nl @
     ''        ''\<close>

definition page_a :: string where
  \<open>page_a =
     nl @ ''    <div style="font-family:Arial,sans-serif;color:#0f172a;line-height:1.4;">'' @ nl @
     ''      <h2 style="margin:0 0 8px;">CampusPulse Daily Reminder</h2>'' @ nl @
     ''      <p>Good morning ''\<close>

definition page_b :: string where
  \<open>page_b =
     '', here is your schedule for today.</p>'' @ nl @
     ''      <h3 style="margin:16px 0 8px;">Classes</h3>'' @ nl @
     ''      <table style="width:100%;border-collapse:collapse;">'' @ nl @
     ''        <tr><th align="left">Time</th><th align="left">Course</th><th align="left">Location</th></tr>'' @ nl @
     ''        ''\<close>

definition page_c :: string where
  \<open>page_c =
     nl @ ''      </table>'' @ nl @
     ''      ''\<close>

definition page_d :: string where
  \<open>page_d =
     nl @ ''    </div>'' @ nl @
     ''    ''\<close>

text \<open>The route section, \<^verbatim>\<open>journey_html\<close>; the journey is a Python value, \<open>JNull\<close> for
  \<^verbatim>\<open>None\<close>.\<close>

definition journey_html :: "(json \<Rightarrow> string) \<Rightarrow> json \<Rightarrow> pyerr + string" where
  "journey_html str journey =
     (if truthy journey then
        ebind (py_get journey ''legs'') (\<lambda>legs.
        ebind (py_iter (py_or legs (JList []))) (\<lambda>ls.
        ebind (leg_rows_loop str [] ls) (\<lambda>leg_rows.
        Inr (route_head @ leg_rows @ route_foot))))
      else Inr [])"

definition build_journey_email :: "(json \<Rightarrow> string) \<Rightarrow> string \<Rightarrow> class_row list \<Rightarrow> json \<Rightarrow> pyerr + string" where
  "build_journey_email str user_email cls journey =
     (let rows = class_rows_loop [] cls;
          class_rows = (if rows = [] then no_classes_row else rows)
      in ebind (journey_html str journey) (\<lambda>jh.
         Inr (page_a @ user_email @ page_b @ class_rows @ page_c @ jh @ page_d)))"

section \<open>Delivery and the two jobs\<close>

text \<open>
  \<^verbatim>\<open>send_brevo_email\<close> returns nothing in Python. The model returns whether a message was
  handed over: \<open>False\<close> when the function returns early for want of configuration, \<open>True\<close>
  when the service accepted the request. A request that raised counts as not delivered.
\<close>

definition send_brevo_email :: "env \<Rightarrow> string \<Rightarrow> string \<Rightarrow> string \<Rightarrow> pyerr + bool" where
  "send_brevo_email ev to_email subject html =
     (if \<not> str_truthy (BREVO_API_KEY ev) \<or> \<not> str_truthy (BREVO_SENDER_EMAIL ev) then Inr False
      else
        (case http_post ev BREVO_EMAIL_URL
                (JDict [(''sender'', JDict [(''name'', JStr (BREVO_SENDER_NAME ev)),
                                            (''email'', JStr (the (BREVO_SENDER_EMAIL ev)))]),
                        (''to'', JList [JDict [(''email'', JStr to_email), (''name'', JStr to_email)]]),
                        (''subject'', JStr subject),
                        (''htmlContent'', JStr html)]) of
           TransportError cls \<Rightarrow> Inl (RequestError cls)
         | StatusError status body \<Rightarrow> Inl (HTTPStatusError status)
         | Success body \<Rightarrow> Inr True))"

text \<open>
  What the jobs write: the two tables \<^verbatim>\<open>email_notifications (user_id, send_date)\<close> and
  \<^verbatim>\<open>reminder_logs (user_id, send_date, kind)\<close>, and the messages delivered. A delivered
  message is logged with the user, the day and the kind of the notification it was sent
  for (these three are bookkeeping of the model, not part of the message).
\<close>

record dispatch =
  d_user :: int
  d_date :: date
  d_kind :: string
  d_to :: string
  d_subject :: string
  d_html :: string

record store =
  email_notifications :: "(int \<times> date) list"
  reminder_logs :: "(int \<times> date \<times> string) list"
  outbox :: "dispatch list"

text \<open>\<^verbatim>\<open>INSERT\<close> into a table whose rows are \<^verbatim>\<open>UNIQUE\<close>.\<close>

definition insert_unique :: "'a \<Rightarrow> 'a list \<Rightarrow> pyerr + 'a list" where
  "insert_unique row tbl = (if row \<in> set tbl then Inl UniqueViolation else Inr (tbl @ [row]))"

text \<open>\<^verbatim>\<open>resolve_location(a)\<close>, \<^verbatim>\<open>resolve_location(b)\<close>, \<^verbatim>\<open>build_journey(origin, destination,
  prefs or {})\<close>, as both jobs run them when a home location is set.\<close>

definition journey_between :: "env \<Rightarrow> datetime \<Rightarrow> string \<Rightarrow> string \<Rightarrow> pref_row option \<Rightarrow> pyerr + json" where
  "journey_between ev now a b prefs =
     ebind (resolve_location ev a) (\<lambda>origin.
     ebind (resolve_location ev b) (\<lambda>destination.
     build_journey ev now origin destination prefs))"

definition home_of :: "pref_row option \<Rightarrow> string option" where
  "home_of prefs = (case prefs of None \<Rightarrow> None | Some p \<Rightarrow> home_location p)"

text \<open>
  An \<^verbatim>\<open>INSERT\<close> into one of the two tables, committed at once.
\<close>

definition insert_daily :: "int \<times> date \<Rightarrow> store \<Rightarrow> pyerr + store" where
  "insert_daily row st =
     (case insert_unique row (email_notifications st) of
        Inl e \<Rightarrow> Inl e
      | Inr tbl \<Rightarrow> Inr (st\<lparr>email_notifications := tbl\<rparr>))"

definition insert_return :: "int \<times> date \<times> string \<Rightarrow> store \<Rightarrow> pyerr + store" where
  "insert_return row st =
     (case insert_unique row (reminder_logs st) of
        Inl e \<Rightarrow> Inl e
      | Inr tbl \<Rightarrow> Inr (st\<lparr>reminder_logs := tbl\<rparr>))"

text \<open>
  The end of a pass of either loop, for the user \<open>u\<close>: \<^verbatim>\<open>try: send_brevo_email(email, subject,
  html)\<close>, \<^verbatim>\<open>except Exception: continue\<close>, then the \<^verbatim>\<open>INSERT\<close> (\<open>ins\<close>) and the commit.
  The result is the exception that leaves the loop, if any, and the tables and messages
  after the pass. \<^verbatim>\<open>continue\<close> is \<open>(None, st)\<close>.
\<close>

definition send_and_record ::
  "env \<Rightarrow> user \<Rightarrow> date \<Rightarrow> string \<Rightarrow> string \<Rightarrow> string \<Rightarrow> (store \<Rightarrow> pyerr + store) \<Rightarrow> store
    \<Rightarrow> pyerr option \<times> store" where
  "send_and_record ev u today kind subject html ins st =
     (case send_brevo_email ev (u_email u) subject html of
        Inl e \<Rightarrow> (None, st)
      | Inr sent \<Rightarrow>
          (let st1 = (if sent
                      then st\<lparr>outbox := outbox st @
                             [\<lparr>d_user = u_id u, d_date = today, d_kind = kind,
                               d_to = u_email u, d_subject = subject, d_html = html\<rparr>]\<rparr>
                      else st)
           in (case ins st1 of
                 Inl e \<Rightarrow> (Some e, st1)
               | Inr st2 \<Rightarrow> (None, st2))))"

text \<open>The journey and the document of the daily message; an exception here is not caught.\<close>

definition daily_message :: "env \<Rightarrow> datetime \<Rightarrow> user \<Rightarrow> pref_row option \<Rightarrow> class_row list \<Rightarrow> pyerr + string" where
  "daily_message ev now u prefs cls =
     ebind (if str_truthy (home_of prefs)
            then journey_between ev now (the (home_of prefs)) ''Campus Jungfernsee'' prefs
            else Inr JNull) (\<lambda>journey.
     build_journey_email (py_str ev) (u_email u) cls journey)"

text \<open>One pass of the loop of \<^verbatim>\<open>send_daily_emails\<close> for the user \<open>u\<close>.\<close>

definition daily_user :: "env \<Rightarrow> db \<Rightarrow> datetime \<Rightarrow> date \<Rightarrow> user \<Rightarrow> store \<Rightarrow> pyerr option \<times> store" where
  "daily_user ev d now today u st =
     (if (u_id u, today) \<in> set (email_notifications st) then (None, st)
      else
        (let prefs = preferences_for_user d (u_id u);
             cls = classes_for_day d (u_id u) today
         in if cls = [] then (None, st)
            else
              (case daily_message ev now u prefs cls of
                 Inl e \<Rightarrow> (Some e, st)
               | Inr html \<Rightarrow>
                   send_and_record ev u today ''daily'' ''CampusPulse daily reminder'' html
                     (insert_daily (u_id u, today)) st)))"

text \<open>The loop over the users: an exception that a pass lets through ends the job.\<close>

fun job_loop :: "(user \<Rightarrow> store \<Rightarrow> pyerr option \<times> store) \<Rightarrow> user list \<Rightarrow> store \<Rightarrow> pyerr option \<times> store" where
  "job_loop body [] st = (None, st)"
| "job_loop body (u # us) st =
     (case body u st of
        (Some e, st') \<Rightarrow> (Some e, st')
      | (None, st') \<Rightarrow> job_loop body us st')"

text \<open>\<open>now\<close> is the clock of the run, read once.\<close>

definition send_daily_emails :: "env \<Rightarrow> db \<Rightarrow> datetime \<Rightarrow> store \<Rightarrow> pyerr option \<times> store" where
  "send_daily_emails ev d now st = job_loop (daily_user ev d now (date_of now)) (users d) st"

text \<open>The test \<^verbatim>\<open>target <= now <= target + timedelta(minutes=5)\<close> of \<^verbatim>\<open>send_return_reminders\<close>,
  with \<^verbatim>\<open>target = last_end - timedelta(minutes=30)\<close>: the second comparison is made only
  when the first holds, and either can raise.\<close>

definition in_window :: "pydatetime \<Rightarrow> pydatetime \<Rightarrow> pyerr + bool" where
  "in_window last_end now =
     (let target = dt_add last_end (- minutes 30) in
      ebind (dt_le target now) (\<lambda>lower.
      if \<not> lower then Inr False else dt_le now (dt_add target (minutes 5))))"

text \<open>The journey and the document of the return reminder; an exception here is not
  caught.\<close>

definition return_message :: "env \<Rightarrow> db \<Rightarrow> datetime \<Rightarrow> date \<Rightarrow> user \<Rightarrow> pref_row option \<Rightarrow> pyerr + string" where
  "return_message ev d now today u prefs =
     ebind (if str_truthy (home_of prefs)
            then journey_between ev now ''Campus Jungfernsee'' (the (home_of prefs)) prefs
            else Inr JNull) (\<lambda>journey.
     build_journey_email (py_str ev) (u_email u) (classes_for_day d (u_id u) today) journey)"

text \<open>
  One pass of the loop of \<^verbatim>\<open>send_return_reminders\<close> for the user \<open>u\<close>. \<open>last_end\<close> is
  read from the column \<^verbatim>\<open>end_time\<close> and has no offset; \<open>now\<close> is \<^verbatim>\<open>datetime.now(TZ)\<close> and
  has one. An exception of the window test is not caught.
\<close>

definition return_user :: "env \<Rightarrow> db \<Rightarrow> datetime \<Rightarrow> date \<Rightarrow> user \<Rightarrow> store \<Rightarrow> pyerr option \<times> store" where
  "return_user ev d now today u st =
     (case last_class_end d (u_id u) today of
        None \<Rightarrow> (None, st)
      | Some last_end \<Rightarrow>
          (case in_window (Naive last_end) (Aware now) of
             Inl e \<Rightarrow> (Some e, st)
           | Inr inside \<Rightarrow>
               if \<not> inside then (None, st)
               else if (u_id u, today, ''return'') \<in> set (reminder_logs st) then (None, st)
               else
                 (case return_message ev d now today u (preferences_for_user d (u_id u)) of
                    Inl e \<Rightarrow> (Some e, st)
                  | Inr html \<Rightarrow>
                      send_and_record ev u today ''return''
                        ''CampusPulse reminder: time to head home'' html
                        (insert_return (u_id u, today, ''return'')) st)))"

definition send_return_reminders :: "env \<Rightarrow> db \<Rightarrow> datetime \<Rightarrow> store \<Rightarrow> pyerr option \<times> store" where
  "send_return_reminders ev d now st = job_loop (return_user ev d now (date_of now)) (users d) st"

text \<open>
  A tick of the scheduler runs one of the two jobs, at its time, on the users, classes and
  preferences stored then and with the services answering as they do then. The tables and
  the messages delivered pass from tick to tick.
\<close>

datatype job = Daily | Return

record tick =
  t_job :: job
  t_now :: datetime
  t_db :: db
  t_env :: env

definition run_tick :: "tick \<Rightarrow> store \<Rightarrow> pyerr option \<times> store" where
  "run_tick t st =
     (case t_job t of
        Daily \<Rightarrow> send_daily_emails (t_env t) (t_db t) (t_now t) st
      | Return \<Rightarrow> send_return_reminders (t_env t) (t_db t) (t_now t) st)"

fun run_ticks :: "tick list \<Rightarrow> store \<Rightarrow> store" where
  "run_ticks [] st = st"
| "run_ticks (t # ts) st = run_ticks ts (snd (run_tick t st))"

section \<open>Reference definitions\<close>

subsection \<open>The stop identifier of a candidate, as the specification words it\<close>

text \<open>The final segment of a colon-delimited text: what follows its last colon.\<close>

definition final_segment :: "string \<Rightarrow> string" where
  "final_segment s = rev (takeWhile (\<lambda>c. c \<noteq> CHR '':'') (rev s))"

text \<open>A field value is accepted when it is text whose final segment is not empty and has
  digits only; the identifier is that segment.\<close>

definition accepted_id :: "json \<Rightarrow> string option" where
  "accepted_id v =
     (case v of
        JStr s \<Rightarrow> if final_segment s \<noteq> [] \<and> list_all is_digit (final_segment s)
                  then Some (final_segment s) else None
      | _ \<Rightarrow> None)"

definition field :: "(string \<times> json) list \<Rightarrow> string \<Rightarrow> json" where
  "field kvs k = (case map_of kvs k of None \<Rightarrow> JNull | Some v \<Rightarrow> v)"

text \<open>The \<^verbatim>\<open>id\<close> field of the nested station object.\<close>

definition station_id :: "(string \<times> json) list \<Rightarrow> json" where
  "station_id kvs = (case field kvs ''station'' of JDict st \<Rightarrow> field st ''id'' | _ \<Rightarrow> JNull)"

text \<open>Priority order: \<^verbatim>\<open>ibnr\<close>, then \<^verbatim>\<open>id\<close>, then the station's \<^verbatim>\<open>id\<close>.\<close>

definition stop_id_spec :: "(string \<times> json) list \<Rightarrow> string option" where
  "stop_id_spec kvs =
     (case accepted_id (field kvs ''ibnr'') of
        Some i \<Rightarrow> Some i
      | None \<Rightarrow>
          (case accepted_id (field kvs ''id'') of
             Some i \<Rightarrow> Some i
           | None \<Rightarrow> accepted_id (station_id kvs)))"

text \<open>The \<^verbatim>\<open>station\<close> field of a candidate is an object, or it is missing, \<^verbatim>\<open>null\<close> or
  another false value.\<close>

definition station_ok :: "(string \<times> json) list \<Rightarrow> bool" where
  "station_ok kvs = (case field kvs ''station'' of JDict st \<Rightarrow> True | v \<Rightarrow> \<not> truthy v)"

subsection \<open>Choosing among the candidates, as the specification words it\<close>

definition is_ok :: "pyerr + 'a \<Rightarrow> bool" where
  "is_ok r = (case r of Inl e \<Rightarrow> False | Inr v \<Rightarrow> True)"

text \<open>A candidate is well formed when neither extraction raises on it.\<close>

definition cand_ok :: "(json \<Rightarrow> pyerr + real) \<Rightarrow> json \<Rightarrow> bool" where
  "cand_ok fl c = (is_ok (normalize_stop_id c) \<and> is_ok (extract_coords fl c))"

text \<open>The identifier, the coordinate and the name that a candidate yields.\<close>

definition cand_id :: "json \<Rightarrow> string option" where
  "cand_id c = (case normalize_stop_id c of Inl e \<Rightarrow> None | Inr i \<Rightarrow> i)"

definition cand_coords :: "(json \<Rightarrow> pyerr + real) \<Rightarrow> json \<Rightarrow> (real \<times> real) option" where
  "cand_coords fl c = (case extract_coords fl c of Inl e \<Rightarrow> None | Inr co \<Rightarrow> co)"

definition cand_name :: "string \<Rightarrow> json \<Rightarrow> json" where
  "cand_name query c =
     (case c of JDict kvs \<Rightarrow> py_or (field kvs ''name'') (JStr query) | _ \<Rightarrow> JStr query)"

text \<open>
  The first candidate that yields an identifier, with its coordinate if it exposes one;
  only when there is none, the first candidate that exposes a coordinate, without an
  identifier; \<open>None\<close> when no candidate has either.
\<close>

definition pick_candidate :: "(json \<Rightarrow> pyerr + real) \<Rightarrow> string \<Rightarrow> json list \<Rightarrow> location option" where
  "pick_candidate fl query cands =
     (case find (\<lambda>c. cand_id c \<noteq> None) cands of
        Some c \<Rightarrow> Some \<lparr>loc_id = cand_id c, loc_name = cand_name query c,
                        loc_coords = cand_coords fl c\<rparr>
      | None \<Rightarrow>
          (case find (\<lambda>c. cand_coords fl c \<noteq> None) cands of
             Some c \<Rightarrow> Some \<lparr>loc_id = None, loc_name = cand_name query c,
                             loc_coords = cand_coords fl c\<rparr>
           | None \<Rightarrow> None))"

subsection \<open>The parts of the document\<close>



text \<open>One row per class in the order given, or the one placeholder row.\<close>

definition class_rows_spec :: "class_row list \<Rightarrow> string" where
  "class_rows_spec cls = (if cls = [] then no_classes_row else concat (map class_row_html cls))"

subsection \<open>What the store holds\<close>

text \<open>
  The tables keep their \<^verbatim>\<open>UNIQUE\<close> constraints, no two delivered messages are for the
  same user, day and kind, and every delivered message has its record: a daily message
  in \<^verbatim>\<open>email_notifications\<close>, any other in \<^verbatim>\<open>reminder_logs\<close>.
\<close>

definition consistent :: "store \<Rightarrow> bool" where
  "consistent st =
     (distinct (email_notifications st) \<and> distinct (reminder_logs st)
      \<and> distinct (map (\<lambda>m. (d_user m, d_date m, d_kind m)) (outbox st))
      \<and> list_all (\<lambda>m. if d_kind m = ''daily''
                        then (d_user m, d_date m) \<in> set (email_notifications st)
                        else (d_user m, d_date m, d_kind m) \<in> set (reminder_logs st))
           (outbox st))"

text \<open>The daily records of a user and the messages delivered for that user.\<close>

definition of_user :: "int \<Rightarrow> store \<Rightarrow> (int \<times> date) list \<times> dispatch list" where
  "of_user uid st =
     (filter (\<lambda>r. fst r = uid) (email_notifications st),
      filter (\<lambda>m. d_user m = uid) (outbox st))"

subsection \<open>The routing request, as the specification words it\<close>

text \<open>No journey is attempted: the endpoints do not both carry a stop identifier, and one
  of them lacks a coordinate.\<close>

definition no_route_possible :: "location \<Rightarrow> location \<Rightarrow> bool" where
  "no_route_possible origin destination =
     (\<not> (str_truthy (loc_id origin) \<and> str_truthy (loc_id destination))
      \<and> (loc_coords origin = None \<or> loc_coords destination = None))"

text \<open>
  The request: at most three itineraries, without polylines; the endpoints by the pair of
  identifiers when both carry one, otherwise by the pair of coordinates with the display
  names passed through; the five mode filters from the preferences; the arrival time if
  there is one.
\<close>

definition journey_query ::
  "location \<Rightarrow> location \<Rightarrow> pref_row option \<Rightarrow> datetime option \<Rightarrow> (string \<times> pval) list" where
  "journey_query origin destination prefs arrival =
     [(''results'', PVal (JStr ''3'')), (''polylines'', PVal (JStr ''false''))]
     @ (if str_truthy (loc_id origin) \<and> str_truthy (loc_id destination)
        then [(''from'', PVal (JStr (the (loc_id origin)))),
              (''to'', PVal (JStr (the (loc_id destination))))]
        else [(''from.latitude'', PVal (JNum (fst (the (loc_coords origin))))),
              (''from.longitude'', PVal (JNum (snd (the (loc_coords origin))))),
              (''from.name'', PVal (py_or (loc_name origin) (JStr ''Start''))),
              (''to.latitude'', PVal (JNum (fst (the (loc_coords destination))))),
              (''to.longitude'', PVal (JNum (snd (the (loc_coords destination))))),
              (''to.name'', PVal (py_or (loc_name destination) (JStr ''Campus Jungfernsee'')))])
     @ [(''products[subway]'', bool_param (pref_flag allow_ubahn prefs)),
        (''products[suburban]'', bool_param (pref_flag allow_sbahn prefs)),
        (''products[regional]'', bool_param (pref_flag allow_regional prefs)),
        (''products[tram]'', bool_param (pref_flag allow_tram prefs)),
        (''products[bus]'', bool_param (pref_flag allow_bus prefs))]
     @ (case arrival of None \<Rightarrow> [] | Some t \<Rightarrow> [(''arrival'', PIso t)])"

text \<open>The arrival time and the timing preference that \<^verbatim>\<open>build_journey\<close> reads from the
  preferences.\<close>

definition arrival_of :: "datetime \<Rightarrow> pref_row option \<Rightarrow> pyerr + datetime option" where
  "arrival_of now prefs =
     build_arrival_datetime now
       (case prefs of None \<Rightarrow> None | Some p \<Rightarrow> arrival_time p)
       (case prefs of None \<Rightarrow> ''earlier'' | Some p \<Rightarrow> timing_pref p)"

subsection \<open>A small installation\<close>

text \<open>
  Two users and their classes on day 100; only the first has stored preferences, with a
  home location. The mail service accepts every message. The transit and geocoding
  services are a parameter of the environment.
\<close>

definition ex_float :: "json \<Rightarrow> pyerr + real" where
  "ex_float v = (case v of JNum r \<Rightarrow> Inr r | _ \<Rightarrow> Inl TypeError)"

definition ex_env :: "(string \<Rightarrow> (string \<times> pval) list \<Rightarrow> http_outcome) \<Rightarrow> env" where
  "ex_env transit =
     \<lparr>http_get = transit, http_post = (\<lambda>url body. Success None),
      py_float = ex_float, py_str = (\<lambda>v. ''?''),
      BREVO_API_KEY = Some ''key'', BREVO_SENDER_EMAIL = Some ''noreply@example.org'',
      BREVO_SENDER_NAME = ''CampusPulse''\<rparr>"

text \<open>No request reaches a server.\<close>

definition unreachable :: "string \<Rightarrow> (string \<times> pval) list \<Rightarrow> http_outcome" where
  "unreachable url params = TransportError ''ConnectTimeout''"

definition alice :: user where
  "alice = \<lparr>u_id = 1, u_email = ''alice@ue-germany.de''\<rparr>"

definition bob :: user where
  "bob = \<lparr>u_id = 2, u_email = ''bob@ue-germany.de''\<rparr>"

definition ex_db :: db where
  "ex_db =
     \<lparr>users = [alice, bob],
      classes =
        [\<lparr>c_user_id = 1, course_name = ''Logic'', start_time = at_time 100 9 0,
          end_time = Some (at_time 100 10 30), location = ''A1''\<rparr>,
         \<lparr>c_user_id = 2, course_name = ''Algebra'', start_time = at_time 100 11 0,
          end_time = Some (at_time 100 14 0), location = ''B2''\<rparr>],
      user_preferences =
        [\<lparr>p_user_id = 1, allow_ubahn = True, allow_sbahn = True, allow_regional = True,
          allow_tram = True, allow_bus = True, timing_pref = ''earlier'',
          arrival_time = None, home_location = Some ''Alexanderplatz''\<rparr>]\<rparr>"

definition empty_store :: store where
  "empty_store = \<lparr>email_notifications = [], reminder_logs = [], outbox = []\<rparr>"

text \<open>The transit search answers every request with the document \<open>j\<close>.\<close>

definition answering :: "json \<Rightarrow> string \<Rightarrow> (string \<times> pval) list \<Rightarrow> http_outcome" where
  "answering j url params = Success (Some j)"

text \<open>Two candidates: the first has a coordinate only, the second a stop identifier and a
  nested coordinate.\<close>

definition coordinate_only :: json where
  "coordinate_only =
     JDict [(''name'', JStr ''Am Kanal''), (''latitude'', JNum 52), (''longitude'', JNum 13)]"

definition with_identifier :: json where
  "with_identifier =
     JDict [(''id'', JStr ''900000230999''), (''name'', JStr ''S Potsdam Hauptbahnhof''),
            (''location'', JDict [(''latitude'', JNum 53), (''longitude'', JNum 14)])]"

definition two_candidates :: "json list" where
  "two_candidates = [coordinate_only, with_identifier]"

text \<open>A third user, without classes.\<close>

definition carol :: user where
  "carol = \<lparr>u_id = 3, u_email = ''carol@ue-germany.de''\<rparr>"

text \<open>One class that starts on day 99 at 23:00 and ends on day 100 at 00:40.\<close>

definition night_db :: db where
  "night_db =
     \<lparr>users = [bob],
      classes =
        [\<lparr>c_user_id = 2, course_name = ''Astronomy'', start_time = at_time 99 23 0,
          end_time = Some (at_time 100 0 40), location = ''Roof''\<rparr>],
      user_preferences = []\<rparr>"

text \<open>Four ticks on day 100: the daily job twice, the return job at 13:31 and 13:35.\<close>

definition ex_ticks :: "tick list" where
  "ex_ticks =
     [\<lparr>t_job = Daily, t_now = at_time 100 7 0, t_db = ex_db\<lparr>users := [bob]\<rparr>,
       t_env = ex_env unreachable\<rparr>,
      \<lparr>t_job = Daily, t_now = at_time 100 7 0, t_db = ex_db\<lparr>users := [bob]\<rparr>,
       t_env = ex_env unreachable\<rparr>,
      \<lparr>t_job = Return, t_now = at_time 100 13 31, t_db = ex_db\<lparr>users := [bob]\<rparr>,
       t_env = ex_env unreachable\<rparr>,
      \<lparr>t_job = Return, t_now = at_time 100 13 35, t_db = ex_db\<lparr>users := [bob]\<rparr>,
       t_env = ex_env unreachable\<rparr>]"

text \<open>One leg of a journey, as the routing service describes it.\<close>

definition one_leg :: json where
  "one_leg =
     JDict [(''origin'', JDict [(''name'', JStr ''Babelsberg'')]),
            (''destination'', JDict [(''name'', JStr ''Jungfernsee'')]),
            (''departure'', JStr ''2026-11-04T08:05:00+01:00''),
            (''arrival'', JStr ''2026-11-04T08:41:00+01:00''),
            (''line'', JDict [(''name'', JStr ''S7'')])]"

text \<open>Two resolved locations with stop identifiers, one with a coordinate only, and two
  itineraries for the answer of a routing service.\<close>

definition home_stop :: location where
  "home_stop = \<lparr>loc_id = Some ''900000230999'', loc_name = JStr ''S Potsdam Hauptbahnhof'',
                loc_coords = Some (53, 14)\<rparr>"

definition campus_stop :: location where
  "campus_stop = \<lparr>loc_id = Some ''900000245027'', loc_name = JStr ''Campus Jungfernsee'',
                  loc_coords = None\<rparr>"

definition home_point :: location where
  "home_point = \<lparr>loc_id = None, loc_name = JStr ''Am Kanal'', loc_coords = Some (52, 13)\<rparr>"

definition two_itineraries :: "json list" where
  "two_itineraries = [JDict [(''legs'', JList [one_leg])], JDict [(''legs'', JList [])]]"

section \<open>Properties\<close>

lemmas ex_defs = ex_env_def ex_float_def unreachable_def alice_def bob_def ex_db_def empty_store_def
  answering_def two_candidates_def coordinate_only_def with_identifier_def carol_def night_db_def ex_ticks_def one_leg_def
  home_stop_def campus_stop_def home_point_def two_itineraries_def

lemmas time_defs = at_time_def date_of_def day_min_def day_max_def day_us_def minute_us_def
  minutes_def

lemmas job_defs = send_daily_emails_def daily_user_def send_return_reminders_def return_user_def
  daily_message_def return_message_def send_and_record_def insert_daily_def insert_return_def
  preferences_for_user_def classes_for_day_def last_class_end_def day_ends_def home_of_def
  journey_between_def resolve_location_def bvg_get_def ebind_def send_brevo_email_def
  insert_unique_def in_window_def

lemmas int_defs = parse_hh_mm_def py_int_def py_strip_def is_space_def isdigit_def is_digit_def
  digits_value_def fits_c_int_def

subsection \<open>Stop identifiers\<close>

lemma py_split_nonempty: "py_split sep s \<noteq> []"
  by (induction s) (auto split: list.splits)

lemma py_split_single: "sep \<notin> set s \<Longrightarrow> py_split sep s = [s]"
  by (induction s) auto

lemma py_split_many: "sep \<in> set s \<Longrightarrow> tl (py_split sep s) \<noteq> []"
  by (induction s) (auto simp: py_split_nonempty split: list.splits)

lemma takeWhile_snoc_stop: "\<not> P y \<Longrightarrow> takeWhile P (xs @ [y]) = takeWhile P xs"
  by (induction xs) auto

lemma takeWhile_snoc_seen: "\<exists>x\<in>set xs. \<not> P x \<Longrightarrow> takeWhile P (xs @ ys) = takeWhile P xs"
  by (induction xs) auto

text \<open>The last part of \<^verbatim>\<open>s.split(sep)\<close> is what follows the last separator of \<open>s\<close>.\<close>

lemma last_py_split:
  "last (py_split sep s) = rev (takeWhile (\<lambda>c. c \<noteq> sep) (rev s))"
proof (induction s)
  case Nil
  then show ?case by simp
next
  case (Cons c cs)
  show ?case
  proof (cases "c = sep")
    case True
    then show ?thesis
      using Cons.IH by (simp add: py_split_nonempty takeWhile_snoc_stop)
  next
    case False
    note c = this
    show ?thesis
    proof (cases "sep \<in> set cs")
      case True
      obtain w ws where sp: "py_split sep cs = w # ws"
        using py_split_nonempty[of sep cs] by (cases "py_split sep cs") auto
      with py_split_many[OF True] have ws: "ws \<noteq> []" by simp
      have "takeWhile (\<lambda>c. c \<noteq> sep) (rev cs @ [c]) = takeWhile (\<lambda>c. c \<noteq> sep) (rev cs)"
        using True by (intro takeWhile_snoc_seen) auto
      with Cons.IH sp ws c show ?thesis by simp
    next
      case False
      with c have "sep \<notin> set (c # cs)" by simp
      then have sp: "py_split sep (c # cs) = [c # cs]" by (rule py_split_single)
      from False c have tw: "takeWhile (\<lambda>x. x \<noteq> sep) (rev cs @ [c]) = rev cs @ [c]"
        by (intro takeWhile_eq_all_conv[THEN iffD2]) auto
      show ?thesis unfolding sp by (simp add: tw)
    qed
  qed
qed

lemma digit_id_accepted: "digit_id v = accepted_id v"
  by (cases v)
    (auto simp: digit_id_def accepted_id_def final_segment_def last_py_split isdigit_def Let_def)

lemma py_get_field: "py_get (JDict kvs) k = Inr (field kvs k)"
  by (simp add: field_def)

lemma station_lookup:
  assumes "station_ok kvs"
  shows "py_get (py_or (field kvs ''station'') (JDict [])) ''id'' = Inr (station_id kvs)"
proof (cases "field kvs ''station''")
  case (JDict st)
  then show ?thesis
    by (cases "st = []") (simp_all add: py_or_def station_id_def field_def)
qed (use assms in \<open>simp_all add: station_ok_def py_or_def station_id_def\<close>)

lemma accepted_id_JNull: "accepted_id JNull = None"
  by (simp add: accepted_id_def)

text \<open>
  C5. For a candidate object whose \<^verbatim>\<open>station\<close> field is an object or a false value,
  \<^verbatim>\<open>normalize_stop_id\<close> returns the identifier that the priority order \<^verbatim>\<open>ibnr\<close>, \<^verbatim>\<open>id\<close>,
  station \<^verbatim>\<open>id\<close> gives: each value reduced to what follows its last colon and accepted
  only if that is a non-empty text of digits; the result is absent when no field is
  accepted.
\<close>

theorem normalize_stop_id_priority:
  assumes "station_ok kvs"
  shows "normalize_stop_id (JDict kvs) = Inr (stop_id_spec kvs)"
proof (cases "kvs = []")
  case True
  then show ?thesis
    by (simp add: normalize_stop_id_def stop_id_spec_def station_id_def field_def
        accepted_id_JNull)
next
  case False
  then have t: "truthy (JDict kvs)" by simp
  show ?thesis
    unfolding normalize_stop_id_def digit_id_accepted py_get_field stop_id_spec_def
    using t by (simp add: ebind_def station_lookup[OF assms] split: option.splits)
qed

text \<open>
  The identifier \<^verbatim>\<open>"900000012345"\<close> is accepted and \<^verbatim>\<open>"abc123"\<close> is rejected; of a compound
  value the final segment is taken; \<^verbatim>\<open>ibnr\<close> goes before \<^verbatim>\<open>id\<close>, and the station's \<^verbatim>\<open>id\<close>
  is used when the candidate's own fields are rejected.
\<close>

theorem normalize_stop_id_priority_witness:
  "station_ok [(''id'', JStr ''900000012345'')]
   \<and> normalize_stop_id (JDict [(''id'', JStr ''900000012345'')]) = Inr (Some ''900000012345'')
   \<and> station_ok [(''id'', JStr ''abc123'')]
   \<and> normalize_stop_id (JDict [(''id'', JStr ''abc123'')]) = Inr None
   \<and> station_ok [(''ibnr'', JStr ''de:11000:900100003''), (''id'', JStr ''12'')]
   \<and> normalize_stop_id (JDict [(''ibnr'', JStr ''de:11000:900100003''), (''id'', JStr ''12'')])
       = Inr (Some ''900100003'')
   \<and> station_ok [(''id'', JStr ''abc123''), (''station'', JDict [(''id'', JStr ''900:77'')])]
   \<and> normalize_stop_id
         (JDict [(''id'', JStr ''abc123''), (''station'', JDict [(''id'', JStr ''900:77'')])])
       = Inr (Some ''77'')"
proof -
  have ok: "station_ok [(''id'', JStr ''900000012345'')]" "station_ok [(''id'', JStr ''abc123'')]"
    "station_ok [(''ibnr'', JStr ''de:11000:900100003''), (''id'', JStr ''12'')]"
    "station_ok [(''id'', JStr ''abc123''), (''station'', JDict [(''id'', JStr ''900:77'')])]"
    by (simp_all add: station_ok_def field_def)
  show ?thesis
    unfolding ok[THEN normalize_stop_id_priority]
    by (simp add: ok stop_id_spec_def accepted_id_def field_def station_id_def final_segment_def
        is_digit_def)
qed

subsection \<open>The arrival time\<close>

text \<open>What the function does on the inputs of the specification: ten minutes before or after
  the stated time, on the day of the run; nothing for an absent or empty text, and
  nothing when the guarded statement raises.\<close>

lemma build_arrival_datetime_0830:
  "build_arrival_datetime now (Some ''08:30'') ''earlier'' = Inr (Some (at_time (date_of now) 8 20))"
  "build_arrival_datetime now (Some ''08:30'') ''later'' = Inr (Some (at_time (date_of now) 8 40))"
  by (simp_all add: build_arrival_datetime_def int_defs time_defs)

lemma build_arrival_datetime_absent:
  "build_arrival_datetime now None timing = Inr None"
  "build_arrival_datetime now (Some []) timing = Inr None"
  "parse_hh_mm s = None \<Longrightarrow> build_arrival_datetime now (Some s) timing = Inr None"
  by (simp_all add: build_arrival_datetime_def)

text \<open>An hour that does not fit a C \<^verbatim>\<open>int\<close> raises \<^verbatim>\<open>OverflowError\<close>, also outside the
  \<^verbatim>\<open>try\<close>.\<close>

lemma build_arrival_datetime_overflow:
  "build_arrival_datetime now (Some ''99999999999:00'') timing = Inl OverflowError"
  by (simp add: build_arrival_datetime_def int_defs)

text \<open>
  C6. The text \<^verbatim>\<open>"25:00"\<close> cannot be read as a time of day, yet the result is not absent:
  both parts are integers, and the constructor of the timestamp, outside the \<^verbatim>\<open>try\<close>,
  raises \<^verbatim>\<open>ValueError\<close>, whatever the timing preference.
\<close>

theorem build_arrival_datetime_hour_25:
  "build_arrival_datetime now (Some ''25:00'') timing = Inl ValueError"
  by (simp add: build_arrival_datetime_def int_defs)

subsection \<open>The window of the return reminder\<close>

text \<open>For two timestamps of one kind the test holds from thirty to twenty-five minutes
  before the last end, both ends included.\<close>

lemma in_window_same_kind:
  "in_window (Aware last_end) (Aware now)
     = Inr (last_end - minutes 30 \<le> now \<and> now \<le> last_end - minutes 30 + minutes 5)"
  "in_window (Naive last_end) (Naive now)
     = Inr (last_end - minutes 30 \<le> now \<and> now \<le> last_end - minutes 30 + minutes 5)"
  by (simp_all add: in_window_def ebind_def)

text \<open>A stored end and the clock of the run are not of one kind: the test raises.\<close>

lemma in_window_raises: "in_window (Naive last_end) (Aware now) = Inl TypeError"
  by (simp add: in_window_def ebind_def)

text \<open>The pass of the return job ends with that exception for every user who has a class
  ending today, whatever the time; nothing is written.\<close>

lemma return_user_raises:
  "last_class_end d (u_id u) today = Some last_end \<Longrightarrow>
   return_user ev d now today u st = (Some TypeError, st)"
  by (simp add: return_user_def in_window_raises)

text \<open>
  C3. The last class of the user ends at 14:00 and the job runs at 13:31, inside the
  window from 13:30 to 13:35: the window test raises \<^verbatim>\<open>TypeError\<close>, the job ends with it
  and no reminder is delivered or recorded.
\<close>

theorem window_test_raises_at_1331:
  "last_class_end (ex_db\<lparr>users := [bob]\<rparr>) 2 (date_of (at_time 100 13 31)) = Some (at_time 100 14 0)
   \<and> in_window (Naive (at_time 100 14 0)) (Aware (at_time 100 13 31)) = Inl TypeError
   \<and> send_return_reminders (ex_env unreachable) (ex_db\<lparr>users := [bob]\<rparr>) (at_time 100 13 31)
        empty_store
       = (Some TypeError, empty_store)"
proof -
  have l: "last_class_end (ex_db\<lparr>users := [bob]\<rparr>) 2 (date_of (at_time 100 13 31))
      = Some (at_time 100 14 0)"
    by (simp add: last_class_end_def day_ends_def ex_db_def time_defs)
  have u: "users (ex_db\<lparr>users := [bob]\<rparr>) = [bob]" "u_id bob = 2"
    by (simp_all add: bob_def)
  from l have "return_user (ex_env unreachable) (ex_db\<lparr>users := [bob]\<rparr>) (at_time 100 13 31)
      (date_of (at_time 100 13 31)) bob empty_store = (Some TypeError, empty_store)"
    by (intro return_user_raises) (simp add: u)
  then show ?thesis
    using l by (simp add: send_return_reminders_def u in_window_raises)
qed

subsection \<open>A failing transit service\<close>

text \<open>An exception that a pass lets through ends the loop: the users after it are not
  visited.\<close>

lemma uncaught_exception_ends_job:
  "body u st = (Some e, st') \<Longrightarrow> job_loop body (u # us) st = (Some e, st')"
  by simp

text \<open>An exception in location resolution, routing or rendering is let through by the
  pass of the daily job.\<close>

lemma daily_user_lets_through:
  assumes "(u_id u, today) \<notin> set (email_notifications st)"
    and "classes_for_day d (u_id u) today \<noteq> []"
    and "daily_message ev now u (preferences_for_user d (u_id u))
           (classes_for_day d (u_id u) today) = Inl e"
  shows "daily_user ev d now today u st = (Some e, st)"
  using assms by (simp add: daily_user_def)

text \<open>An exception of the mail request is caught: the pass ends without a record, and the
  loop goes on with the next user.\<close>

lemma send_failure_skips_user:
  assumes "send_brevo_email ev (u_email u) subject html = Inl e"
  shows "send_and_record ev u today kind subject html ins st = (None, st)"
  using assms by (simp add: send_and_record_def)

text \<open>
  C2. The first user has a home location and the transit service is unreachable: the
  exception of \<^verbatim>\<open>bvg_get\<close> leaves the loop of the daily job, and the second user, who
  has a class that day, gets no message. Run for the second user alone, the same job
  delivers the message.
\<close>

theorem transit_failure_ends_daily_job:
  "send_daily_emails (ex_env unreachable) ex_db (at_time 100 7 0) empty_store
     = (Some (HTTPException 502 ''BVG request failed: ConnectTimeout''), empty_store)
   \<and> map d_to (outbox (snd (send_daily_emails (ex_env unreachable) (ex_db\<lparr>users := [bob]\<rparr>)
                                (at_time 100 7 0) empty_store)))
       = [''bob@ue-germany.de'']"
  by (simp add: ex_defs time_defs job_defs build_journey_email_def journey_html_def Let_def)

subsection \<open>Choosing among the candidates\<close>

lemma digit_id_truthy: "digit_id v = Some s \<Longrightarrow> s \<noteq> []"
  by (auto simp: digit_id_def isdigit_def split: option.splits if_splits)

lemma normalize_stop_id_dict_only:
  "normalize_stop_id c = Inr r \<Longrightarrow> truthy c \<Longrightarrow> \<exists>kvs. c = JDict kvs"
  by (cases c) (simp_all add: normalize_stop_id_def ebind_def)

lemma normalize_stop_id_falsy: "\<not> truthy c \<Longrightarrow> normalize_stop_id c = Inr None"
  by (simp add: normalize_stop_id_def)

lemma extract_coords_falsy: "\<not> truthy c \<Longrightarrow> extract_coords fl c = Inr None"
  by (simp add: extract_coords_def)

text \<open>An identifier that \<^verbatim>\<open>normalize_stop_id\<close> returns passes the test \<^verbatim>\<open>if stop_id\<close>.\<close>

lemma normalize_stop_id_truthy_id:
  assumes "normalize_stop_id c = Inr r"
  shows "str_truthy r = (r \<noteq> None)"
proof (cases r)
  case None
  then show ?thesis by simp
next
  case (Some s)
  have "\<exists>v. digit_id v = Some s"
    using assms Some
    by (auto simp: normalize_stop_id_def ebind_def split: if_splits sum.splits)
  then show ?thesis using Some digit_id_truthy by auto
qed

lemma cand_facts:
  assumes "cand_ok fl c"
  shows "normalize_stop_id c = Inr (cand_id c)"
    and "extract_coords fl c = Inr (cand_coords fl c)"
    and "str_truthy (cand_id c) = (cand_id c \<noteq> None)"
    and "cand_id c \<noteq> None \<or> cand_coords fl c \<noteq> None \<Longrightarrow> \<exists>kvs. c = JDict kvs"
proof -
  from assms obtain i co
    where n: "normalize_stop_id c = Inr i" and e: "extract_coords fl c = Inr co"
    by (auto simp: cand_ok_def is_ok_def split: sum.splits)
  show 1: "normalize_stop_id c = Inr (cand_id c)" using n by (simp add: cand_id_def)
  show 2: "extract_coords fl c = Inr (cand_coords fl c)" using e by (simp add: cand_coords_def)
  show "str_truthy (cand_id c) = (cand_id c \<noteq> None)"
    using 1 by (rule normalize_stop_id_truthy_id)
  show "\<exists>kvs. c = JDict kvs" if "cand_id c \<noteq> None \<or> cand_coords fl c \<noteq> None"
  proof -
    have "truthy c"
    proof (rule ccontr)
      assume f: "\<not> truthy c"
      from 1 2 normalize_stop_id_falsy[OF f] extract_coords_falsy[OF f, of fl]
      have "cand_id c = None" "cand_coords fl c = None" by simp_all
      with that show False by simp
    qed
    with 1 show ?thesis by (rule normalize_stop_id_dict_only)
  qed
qed

text \<open>The first loop returns at the first candidate that yields an identifier.\<close>

lemma first_with_id_find:
  "list_all (cand_ok fl) cands \<Longrightarrow>
   first_with_id fl query cands =
     Inr (case find (\<lambda>c. cand_id c \<noteq> None) cands of
            None \<Rightarrow> None
          | Some c \<Rightarrow> Some \<lparr>loc_id = cand_id c, loc_name = cand_name query c,
                            loc_coords = cand_coords fl c\<rparr>)"
proof (induction cands)
  case Nil
  then show ?case by simp
next
  case (Cons c cands)
  from Cons.prems have ok: "cand_ok fl c" by simp
  note s = cand_facts[OF ok]
  show ?case
  proof (cases "cand_id c = None")
    case True
    with s(1,3) Cons show ?thesis by (simp add: ebind_def)
  next
    case False
    with s(4) obtain kvs where c: "c = JDict kvs" by auto
    from False s(1,2,3) show ?thesis
      by (simp add: ebind_def) (simp add: c cand_name_def field_def)
  qed
qed

text \<open>The second loop returns at the first candidate that exposes a coordinate.\<close>

lemma first_with_coords_find:
  "list_all (cand_ok fl) cands \<Longrightarrow>
   first_with_coords fl query cands =
     Inr (case find (\<lambda>c. cand_coords fl c \<noteq> None) cands of
            None \<Rightarrow> None
          | Some c \<Rightarrow> Some \<lparr>loc_id = None, loc_name = cand_name query c,
                            loc_coords = cand_coords fl c\<rparr>)"
proof (induction cands)
  case Nil
  then show ?case by simp
next
  case (Cons c cands)
  from Cons.prems have ok: "cand_ok fl c" by simp
  note s = cand_facts[OF ok]
  show ?case
  proof (cases "cand_coords fl c = None")
    case True
    with s(2) Cons show ?thesis by (simp add: ebind_def)
  next
    case False
    with s(4) obtain kvs where c: "c = JDict kvs" by auto
    from False s(2) show ?thesis
      by (simp add: ebind_def) (simp add: c cand_name_def field_def)
  qed
qed

text \<open>
  C4. When the transit search answers with a list of well-formed candidates,
  \<^verbatim>\<open>resolve_location\<close> returns the location built from the first candidate that yields
  a stop identifier (the identifier, and the coordinate of that candidate if it exposes
  one); only when no candidate yields an identifier, the first candidate that exposes a
  coordinate, with the identifier absent; and it goes on to the geocoding service only
  when no candidate has either.
\<close>

theorem resolve_location_prefers_identifier:
  assumes "bvg_get ev ''/locations''
             [(''query'', PVal (JStr query)), (''results'', PVal (JStr ''5''))]
           = Inr (JList cands)"
    and "list_all (cand_ok (py_float ev)) cands"
  shows "resolve_location ev query =
           (case pick_candidate (py_float ev) query cands of
              Some l \<Rightarrow> Inr l
            | None \<Rightarrow> geocode_fallback ev query)"
proof -
  have it: "py_iter (py_or (JList cands) (JList [])) = Inr cands"
    by (simp add: py_or_def)
  show ?thesis
    unfolding resolve_location_def assms(1) pick_candidate_def
    by (simp add: ebind_def it first_with_id_find[OF assms(2)]
        first_with_coords_find[OF assms(2)] split: option.splits)
qed

text \<open>
  The first candidate has a coordinate only and the second a valid stop identifier: the
  result carries the identifier of the second, with the second's coordinate.
\<close>

theorem resolve_location_prefers_identifier_witness:
  "bvg_get (ex_env (answering (JList two_candidates))) ''/locations''
     [(''query'', PVal (JStr ''Potsdam'')), (''results'', PVal (JStr ''5''))]
     = Inr (JList two_candidates)
   \<and> list_all (cand_ok (py_float (ex_env (answering (JList two_candidates))))) two_candidates
   \<and> resolve_location (ex_env (answering (JList two_candidates))) ''Potsdam''
     = Inr \<lparr>loc_id = Some ''900000230999'', loc_name = JStr ''S Potsdam Hauptbahnhof'',
            loc_coords = Some (53, 14)\<rparr>"
proof -
  let ?ev = "ex_env (answering (JList two_candidates))"
  have fl: "py_float ?ev = ex_float" by (simp add: ex_env_def)
  have ids: "normalize_stop_id coordinate_only = Inr None"
    "normalize_stop_id with_identifier = Inr (Some ''900000230999'')"
    by (simp_all add: coordinate_only_def with_identifier_def normalize_stop_id_def
        digit_id_def isdigit_def is_digit_def ebind_def py_or_def)
  have cos: "extract_coords ex_float coordinate_only = Inr (Some (52, 13))"
    "extract_coords ex_float with_identifier = Inr (Some (53, 14))"
    by (simp_all add: coordinate_only_def with_identifier_def extract_coords_def coords_in_def
        ex_float_def ebind_def py_or_def)
  have a: "bvg_get ?ev ''/locations''
      [(''query'', PVal (JStr ''Potsdam'')), (''results'', PVal (JStr ''5''))]
      = Inr (JList two_candidates)"
    by (simp add: bvg_get_def ex_env_def answering_def)
  have b: "list_all (cand_ok (py_float ?ev)) two_candidates"
    unfolding fl by (simp add: two_candidates_def cand_ok_def is_ok_def ids cos)
  have n: "cand_name ''Potsdam'' with_identifier = JStr ''S Potsdam Hauptbahnhof''"
    by (simp add: with_identifier_def cand_name_def field_def py_or_def)
  have p: "pick_candidate ex_float ''Potsdam'' two_candidates
      = Some \<lparr>loc_id = Some ''900000230999'', loc_name = JStr ''S Potsdam Hauptbahnhof'',
              loc_coords = Some (53, 14)\<rparr>"
    by (simp add: pick_candidate_def two_candidates_def cand_id_def cand_coords_def ids cos n)
  from resolve_location_prefers_identifier[OF a b] a b show ?thesis
    by (simp add: fl p)
qed

subsection \<open>The document\<close>

lemma class_rows_loop_concat: "class_rows_loop acc cs = acc @ concat (map class_row_html cs)"
  by (induction cs arbitrary: acc) simp_all


lemma class_row_html_nonempty: "class_row_html c \<noteq> []"
  by (simp add: class_row_html_def Let_def)

lemma class_rows_empty_iff: "class_rows_loop [] cs = [] \<longleftrightarrow> cs = []"
  by (cases cs) (simp_all add: class_rows_loop_concat class_row_html_nonempty)

lemma class_rows_choice:
  "(if class_rows_loop [] cls = [] then no_classes_row else class_rows_loop [] cls)
     = class_rows_spec cls"
  unfolding class_rows_empty_iff class_rows_spec_def by (simp add: class_rows_loop_concat)



lemma build_journey_email_no_journey:
  "build_journey_email str email cls JNull =
     Inr (page_a @ email @ page_b @ class_rows_spec cls @ page_c @ page_d)"
  by (simp add: build_journey_email_def journey_html_def ebind_def Let_def class_rows_choice)




subsection \<open>The two selections of the classes of a day\<close>

text \<open>\<^verbatim>\<open>classes_for_day\<close> returns the classes of the user that start within the day, each
  as often as it is stored, ordered by their start.\<close>

lemma classes_for_day_selects:
  "set (classes_for_day d uid day)
     = {c \<in> set (classes d). c_user_id c = uid \<and> day_min day \<le> start_time c
                              \<and> start_time c \<le> day_max day}"
  "length (classes_for_day d uid day)
     = length (filter (\<lambda>c. c_user_id c = uid \<and> day_min day \<le> start_time c
                              \<and> start_time c \<le> day_max day) (classes d))"
  "sorted (map start_time (classes_for_day d uid day))"
  by (auto simp: classes_for_day_def)

text \<open>The ends among which \<^verbatim>\<open>last_class_end\<close> takes the maximum: those of the classes of
  the user that end within the day.\<close>

lemma day_ends_selects:
  "set (day_ends d uid day)
     = {e. \<exists>c \<in> set (classes d). c_user_id c = uid \<and> end_time c = Some e
                                  \<and> day_min day \<le> e \<and> e \<le> day_max day}"
  by (auto simp: day_ends_def split: option.splits if_splits)

lemma last_class_end_Max:
  "last_class_end d uid day
     = (if day_ends d uid day = [] then None else Some (Max (set (day_ends d uid day))))"
  by (cases "day_ends d uid day")
    (simp_all add: last_class_end_def Max.set_eq_fold[symmetric] del: set_simps)

text \<open>
  C10. \<^verbatim>\<open>classes_for_day\<close> selects the classes of the user by a start within the day,
  \<^verbatim>\<open>last_class_end\<close> is the maximum of the ends within the day. For a class of the user
  that starts before the day and ends within it: there is a last end, it is the latest
  end of the day and not before the end of this class, and the class is not among those
  that a document of the day lists. The pass of the return job for this user does not
  get as far as a document: it ends with the \<^verbatim>\<open>TypeError\<close> of the window test, and
  nothing is delivered or recorded.
\<close>

theorem day_selections_differ:
  assumes "c \<in> set (classes d)" "c_user_id c = u_id u" "start_time c < day_min day"
    "end_time c = Some e" "day_min day \<le> e" "e \<le> day_max day"
  shows "set (classes_for_day d (u_id u) day)
           = {c \<in> set (classes d). c_user_id c = u_id u \<and> day_min day \<le> start_time c
                                    \<and> start_time c \<le> day_max day}
    \<and> set (day_ends d (u_id u) day)
           = {e. \<exists>c \<in> set (classes d). c_user_id c = u_id u \<and> end_time c = Some e
                                        \<and> day_min day \<le> e \<and> e \<le> day_max day}
    \<and> last_class_end d (u_id u) day = Some (Max (set (day_ends d (u_id u) day)))
    \<and> e \<le> Max (set (day_ends d (u_id u) day))
    \<and> c \<notin> set (classes_for_day d (u_id u) day)
    \<and> return_user ev d now day u st = (Some TypeError, st)"
proof -
  have e: "e \<in> set (day_ends d (u_id u) day)"
    unfolding day_ends_selects using assms by blast
  then have ne: "day_ends d (u_id u) day \<noteq> []" by auto
  then have l: "last_class_end d (u_id u) day = Some (Max (set (day_ends d (u_id u) day)))"
    by (simp add: last_class_end_Max)
  have m: "e \<le> Max (set (day_ends d (u_id u) day))" using e by simp
  have n: "c \<notin> set (classes_for_day d (u_id u) day)"
    unfolding classes_for_day_selects using assms(3) by simp
  from l have r: "return_user ev d now day u st = (Some TypeError, st)"
    by (rule return_user_raises)
  from l m n r show ?thesis
    by (simp only: classes_for_day_selects day_ends_selects simp_thms)
qed

text \<open>
  The class runs from 23:00 of day 99 to 00:40 of day 100. Its end is the last end of day
  100, no class is listed for day 100, and the return job at 00:10 of day 100, inside
  the window, ends with \<^verbatim>\<open>TypeError\<close> and delivers nothing.
\<close>

theorem day_selections_differ_witness:
  "hd (classes night_db) \<in> set (classes night_db)
   \<and> c_user_id (hd (classes night_db)) = u_id bob
   \<and> start_time (hd (classes night_db)) < day_min 100
   \<and> end_time (hd (classes night_db)) = Some (at_time 100 0 40)
   \<and> day_min 100 \<le> at_time 100 0 40 \<and> at_time 100 0 40 \<le> day_max 100
   \<and> last_class_end night_db (u_id bob) 100 = Some (at_time 100 0 40)
   \<and> classes_for_day night_db (u_id bob) 100 = []
   \<and> return_user (ex_env unreachable) night_db (at_time 100 0 10) 100 bob empty_store
       = (Some TypeError, empty_store)
   \<and> send_return_reminders (ex_env unreachable) night_db (at_time 100 0 10) empty_store
       = (Some TypeError, empty_store)"
proof -
  have h: "hd (classes night_db) \<in> set (classes night_db)"
    "c_user_id (hd (classes night_db)) = u_id bob"
    "start_time (hd (classes night_db)) < day_min 100"
    "end_time (hd (classes night_db)) = Some (at_time 100 0 40)"
    "day_min 100 \<le> at_time 100 0 40" "at_time 100 0 40 \<le> day_max 100"
    by (simp_all add: night_db_def bob_def time_defs)
  have ends: "day_ends night_db (u_id bob) 100 = [at_time 100 0 40]"
    by (simp add: day_ends_def night_db_def bob_def time_defs)
  have none: "classes_for_day night_db (u_id bob) 100 = []"
    by (simp add: classes_for_day_def night_db_def bob_def time_defs)
  have d: "date_of (at_time 100 0 10) = 100" "users night_db = [bob]"
    by (simp_all add: night_db_def time_defs)
  from day_selections_differ[OF h, of "ex_env unreachable" "at_time 100 0 10" empty_store]
  have r: "last_class_end night_db (u_id bob) 100 = Some (at_time 100 0 40)"
    "return_user (ex_env unreachable) night_db (at_time 100 0 10) 100 bob empty_store
       = (Some TypeError, empty_store)"
    by (simp_all add: ends)
  from h r none show ?thesis
    by (simp add: send_return_reminders_def d)
qed

subsection \<open>A day without classes\<close>

text \<open>The end of a pass for another user leaves what depends on this user only.\<close>

lemma send_and_record_other_user:
  assumes "u_id u \<noteq> uid"
    and "\<And>s s'. ins s = Inr s' \<Longrightarrow> P s' = P s"
    and "\<And>s m. d_user m \<noteq> uid \<Longrightarrow> P (s\<lparr>outbox := outbox s @ [m]\<rparr>) = P s"
  shows "P (snd (send_and_record ev u today kind subject html ins st)) = P st"
proof (cases "send_brevo_email ev (u_email u) subject html")
  case (Inl e)
  then show ?thesis by (simp add: send_and_record_def)
next
  case (Inr sent)
  let ?m = "\<lparr>d_user = u_id u, d_date = today, d_kind = kind,
             d_to = u_email u, d_subject = subject, d_html = html\<rparr>"
  let ?st1 = "if sent then st\<lparr>outbox := outbox st @ [?m]\<rparr> else st"
  have 1: "P ?st1 = P st" using assms(1) assms(3)[of ?m st] by simp
  show ?thesis
  proof (cases "ins ?st1")
    case (Inl e)
    with Inr 1 show ?thesis by (simp add: send_and_record_def Let_def)
  next
    case (Inr st2)
    with assms(2)[OF Inr] 1 \<open>send_brevo_email ev (u_email u) subject html = Inr sent\<close>
    show ?thesis by (simp add: send_and_record_def Let_def)
  qed
qed

lemma daily_user_frame:
  assumes "classes_for_day d uid today = []"
  shows "of_user uid (snd (daily_user ev d now today u st)) = of_user uid st"
proof (cases "u_id u = uid")
  case True
  with assms show ?thesis by (simp add: daily_user_def)
next
  case False
  have "of_user uid (snd (send_and_record ev u today kind subject html
            (insert_daily (u_id u, today)) st)) = of_user uid st" for kind subject html
    using False
    by (intro send_and_record_other_user)
      (auto simp: of_user_def insert_daily_def insert_unique_def split: if_splits)
  then show ?thesis
    by (simp add: daily_user_def Let_def split: sum.splits)
qed

lemma job_loop_frame:
  assumes "\<And>u st. P (snd (body u st)) = P st"
  shows "P (snd (job_loop body us st)) = P st"
proof (induction us arbitrary: st)
  case Nil
  then show ?case by simp
next
  case (Cons u us)
  obtain r st' where b: "body u st = (r, st')" by (cases "body u st")
  from assms[of u st] b have "P st' = P st" by simp
  with Cons b show ?case by (cases r) simp_all
qed

text \<open>
  C9. For a user without a class that starts today, a run of the daily job leaves the
  daily records of that user as they were, and delivers no message for that user,
  whatever the services answer and however the run ends.
\<close>

theorem no_classes_no_digest:
  assumes "classes_for_day d uid (date_of now) = []"
  shows "of_user uid (snd (send_daily_emails ev d now st)) = of_user uid st"
  unfolding send_daily_emails_def
  by (rule job_loop_frame) (rule daily_user_frame[OF assms])

text \<open>
  The third user has no class on day 100 and the second has one: after the daily job the
  third has no record and no message, the second has both.
\<close>

theorem no_classes_no_digest_witness:
  "classes_for_day (ex_db\<lparr>users := [carol, bob]\<rparr>) 3 (date_of (at_time 100 7 0)) = []
   \<and> of_user 3 (snd (send_daily_emails (ex_env unreachable) (ex_db\<lparr>users := [carol, bob]\<rparr>)
                       (at_time 100 7 0) empty_store))
       = ([], [])
   \<and> email_notifications (snd (send_daily_emails (ex_env unreachable)
                                  (ex_db\<lparr>users := [carol, bob]\<rparr>) (at_time 100 7 0) empty_store))
       = [(2, 100)]
   \<and> map d_to (outbox (snd (send_daily_emails (ex_env unreachable)
                               (ex_db\<lparr>users := [carol, bob]\<rparr>) (at_time 100 7 0) empty_store)))
       = [''bob@ue-germany.de'']"
proof -
  have h: "classes_for_day (ex_db\<lparr>users := [carol, bob]\<rparr>) 3 (date_of (at_time 100 7 0)) = []"
    by (simp add: classes_for_day_def ex_db_def time_defs)
  have e: "of_user 3 empty_store = ([], [])"
    by (simp add: of_user_def empty_store_def)
  have run: "snd (send_daily_emails (ex_env unreachable) (ex_db\<lparr>users := [carol, bob]\<rparr>)
                    (at_time 100 7 0) empty_store)
      = \<lparr>email_notifications = [(2, 100)], reminder_logs = [],
         outbox = [\<lparr>d_user = 2, d_date = 100, d_kind = ''daily'', d_to = ''bob@ue-germany.de'',
                    d_subject = ''CampusPulse daily reminder'',
                    d_html = page_a @ ''bob@ue-germany.de'' @ page_b
                      @ class_rows_spec (classes_for_day ex_db 2 100) @ page_c @ page_d\<rparr>]\<rparr>"
    by (simp add: ex_defs time_defs job_defs build_journey_email_no_journey)
  from no_classes_no_digest[OF h, of "ex_env unreachable" empty_store] h show ?thesis
    by (simp add: e run)
qed

subsection \<open>At most one notification\<close>

text \<open>A new daily record, with or without a message delivered for it.\<close>

lemma consistent_daily_record:
  assumes c: "consistent st" and fresh: "(u, d) \<notin> set (email_notifications st)"
  shows "consistent (st\<lparr>email_notifications := email_notifications st @ [(u, d)]\<rparr>)"
    and "d_user m = u \<Longrightarrow> d_date m = d \<Longrightarrow> d_kind m = ''daily'' \<Longrightarrow>
         consistent (st\<lparr>outbox := outbox st @ [m],
                        email_notifications := email_notifications st @ [(u, d)]\<rparr>)"
proof -
  have none: "(u, d, ''daily'') \<notin> set (map (\<lambda>m. (d_user m, d_date m, d_kind m)) (outbox st))"
  proof
    assume "(u, d, ''daily'') \<in> set (map (\<lambda>m. (d_user m, d_date m, d_kind m)) (outbox st))"
    then obtain m' where "m' \<in> set (outbox st)" "d_user m' = u" "d_date m' = d"
      "d_kind m' = ''daily''" by auto
    with c have "(u, d) \<in> set (email_notifications st)"
      by (auto simp: consistent_def list_all_iff)
    with fresh show False by simp
  qed
  show "consistent (st\<lparr>email_notifications := email_notifications st @ [(u, d)]\<rparr>)"
    using c fresh by (auto simp: consistent_def list_all_iff)
  show "consistent (st\<lparr>outbox := outbox st @ [m],
                        email_notifications := email_notifications st @ [(u, d)]\<rparr>)"
    if "d_user m = u" "d_date m = d" "d_kind m = ''daily''"
    using c fresh none that by (auto simp: consistent_def list_all_iff)
qed

text \<open>A new record of a return reminder, with or without a message delivered for it.\<close>

lemma consistent_return_record:
  assumes c: "consistent st" and fresh: "(u, d, ''return'') \<notin> set (reminder_logs st)"
  shows "consistent (st\<lparr>reminder_logs := reminder_logs st @ [(u, d, ''return'')]\<rparr>)"
    and "d_user m = u \<Longrightarrow> d_date m = d \<Longrightarrow> d_kind m = ''return'' \<Longrightarrow>
         consistent (st\<lparr>outbox := outbox st @ [m],
                        reminder_logs := reminder_logs st @ [(u, d, ''return'')]\<rparr>)"
proof -
  have none: "(u, d, ''return'') \<notin> set (map (\<lambda>m. (d_user m, d_date m, d_kind m)) (outbox st))"
  proof
    assume "(u, d, ''return'') \<in> set (map (\<lambda>m. (d_user m, d_date m, d_kind m)) (outbox st))"
    then obtain m' where m': "m' \<in> set (outbox st)" "d_user m' = u" "d_date m' = d"
      "d_kind m' = ''return''" by auto
    then have "d_kind m' \<noteq> ''daily''" by simp
    with c m' have "(u, d, ''return'') \<in> set (reminder_logs st)"
      by (auto simp: consistent_def list_all_iff)
    with fresh show False by simp
  qed
  show "consistent (st\<lparr>reminder_logs := reminder_logs st @ [(u, d, ''return'')]\<rparr>)"
    using c fresh by (auto simp: consistent_def list_all_iff)
  show "consistent (st\<lparr>outbox := outbox st @ [m],
                        reminder_logs := reminder_logs st @ [(u, d, ''return'')]\<rparr>)"
    if "d_user m = u" "d_date m = d" "d_kind m = ''return''"
    using c fresh none that by (auto simp: consistent_def list_all_iff)
qed

lemma send_and_record_daily_consistent:
  assumes "consistent st" "(u_id u, today) \<notin> set (email_notifications st)"
  shows "consistent (snd (send_and_record ev u today ''daily'' subject html
                            (insert_daily (u_id u, today)) st))"
proof (cases "send_brevo_email ev (u_email u) subject html")
  case (Inl e)
  with assms show ?thesis by (simp add: send_and_record_def)
next
  case (Inr sent)
  note r = consistent_daily_record[OF assms]
  show ?thesis
    using Inr assms(2)
    by (cases sent) (simp_all add: send_and_record_def insert_daily_def insert_unique_def r)
qed

lemma send_and_record_return_consistent:
  assumes "consistent st" "(u_id u, today, ''return'') \<notin> set (reminder_logs st)"
  shows "consistent (snd (send_and_record ev u today ''return'' subject html
                            (insert_return (u_id u, today, ''return'')) st))"
proof (cases "send_brevo_email ev (u_email u) subject html")
  case (Inl e)
  with assms show ?thesis by (simp add: send_and_record_def)
next
  case (Inr sent)
  note r = consistent_return_record[OF assms]
  show ?thesis
    using Inr assms(2)
    by (cases sent) (simp_all add: send_and_record_def insert_return_def insert_unique_def r)
qed

lemma daily_user_consistent:
  assumes "consistent st"
  shows "consistent (snd (daily_user ev d now today u st))"
  using assms
  by (simp add: daily_user_def Let_def send_and_record_daily_consistent split: sum.splits)

lemma return_user_consistent:
  assumes "consistent st"
  shows "consistent (snd (return_user ev d now today u st))"
  using assms
  by (simp add: return_user_def send_and_record_return_consistent
      split: sum.splits option.splits)

text \<open>What every pass keeps, the loop keeps, also when an exception ends it.\<close>

lemma job_loop_inv:
  assumes "\<And>u st. I st \<Longrightarrow> I (snd (body u st))" "I st"
  shows "I (snd (job_loop body us st))"
  using assms(2)
proof (induction us arbitrary: st)
  case Nil
  then show ?case by simp
next
  case (Cons u us)
  obtain r st' where b: "body u st = (r, st')" by (cases "body u st")
  from assms(1)[OF Cons.prems, of u] b have "I st'" by simp
  with Cons.IH[of st'] b show ?case by (cases r) simp_all
qed

lemma run_tick_consistent: "consistent st \<Longrightarrow> consistent (snd (run_tick t st))"
  by (cases "t_job t")
    (simp_all add: run_tick_def send_daily_emails_def send_return_reminders_def
      job_loop_inv[where I=consistent] daily_user_consistent return_user_consistent)

lemma run_ticks_consistent: "consistent st \<Longrightarrow> consistent (run_ticks ts st)"
  by (induction ts arbitrary: st) (simp_all add: run_tick_consistent)

lemma distinct_count_le1: "distinct xs \<Longrightarrow> length (filter (\<lambda>y. y = x) xs) \<le> 1"
  by (induction xs) (auto simp: filter_empty_conv)

text \<open>
  C1. From a consistent store (the empty one is), after any list of ticks of the two jobs,
  run one after the other, each with its own time, stored data and answers of the
  services: for every user, day and kind there is at most one record in each table and
  at most one delivered message.
\<close>

theorem at_most_one_notification:
  assumes "consistent st"
  shows "length (filter (\<lambda>r. r = (u, d)) (email_notifications (run_ticks ts st))) \<le> 1
     \<and> length (filter (\<lambda>r. r = (u, d, k)) (reminder_logs (run_ticks ts st))) \<le> 1
     \<and> length (filter (\<lambda>m. d_user m = u \<and> d_date m = d \<and> d_kind m = k)
                  (outbox (run_ticks ts st))) \<le> 1"
proof -
  let ?s = "run_ticks ts st"
  let ?key = "\<lambda>m. (d_user m, d_date m, d_kind m)"
  have c: "consistent ?s" using assms by (rule run_ticks_consistent)
  have "length (filter (\<lambda>m. d_user m = u \<and> d_date m = d \<and> d_kind m = k) (outbox ?s))
      = length (filter (\<lambda>y. y = (u, d, k)) (map ?key (outbox ?s)))"
    by (simp add: filter_map comp_def)
  also have "\<dots> \<le> 1"
    using c by (intro distinct_count_le1) (simp add: consistent_def)
  finally have o: "length (filter (\<lambda>m. d_user m = u \<and> d_date m = d \<and> d_kind m = k)
      (outbox ?s)) \<le> 1" .
  have e: "length (filter (\<lambda>r. r = (u, d)) (email_notifications ?s)) \<le> 1"
    using c by (intro distinct_count_le1) (simp add: consistent_def)
  have r: "length (filter (\<lambda>r. r = (u, d, k)) (reminder_logs ?s)) \<le> 1"
    using c by (intro distinct_count_le1) (simp add: consistent_def)
  from e r o show ?thesis by (intro conjI)
qed

text \<open>
  The daily job twice and the return job at 13:31 and at 13:35 of one day, for one user:
  one daily record and one daily message; both runs of the return job end at the window
  test and write nothing.
\<close>

theorem at_most_one_notification_witness:
  "consistent empty_store
   \<and> length (filter (\<lambda>r. r = (2, 100)) (email_notifications (run_ticks ex_ticks empty_store))) \<le> 1
   \<and> length (filter (\<lambda>r. r = (2, 100, ''daily''))
               (reminder_logs (run_ticks ex_ticks empty_store))) \<le> 1
   \<and> length (filter (\<lambda>m. d_user m = 2 \<and> d_date m = 100 \<and> d_kind m = ''daily'')
               (outbox (run_ticks ex_ticks empty_store))) \<le> 1
   \<and> email_notifications (run_ticks ex_ticks empty_store) = [(2, 100)]
   \<and> reminder_logs (run_ticks ex_ticks empty_store) = []
   \<and> map (\<lambda>m. (d_user m, d_date m, d_kind m)) (outbox (run_ticks ex_ticks empty_store))
       = [(2, 100, ''daily'')]"
proof -
  have c: "consistent empty_store"
    by (simp add: consistent_def empty_store_def)
  have run: "run_ticks ex_ticks empty_store
      = \<lparr>email_notifications = [(2, 100)], reminder_logs = [],
         outbox =
           [\<lparr>d_user = 2, d_date = 100, d_kind = ''daily'', d_to = ''bob@ue-germany.de'',
             d_subject = ''CampusPulse daily reminder'',
             d_html = page_a @ ''bob@ue-germany.de'' @ page_b
               @ class_rows_spec (classes_for_day ex_db 2 100) @ page_c @ page_d\<rparr>]\<rparr>"
    by (simp add: run_tick_def ex_defs time_defs job_defs build_journey_email_no_journey)
  from at_most_one_notification[OF c, of 2 100 ex_ticks "''daily''"] c show ?thesis
    by (simp add: run)
qed

subsection \<open>The journey\<close>

lemma endpoint_params_None:
  "endpoint_params origin destination = None \<longleftrightarrow> no_route_possible origin destination"
  by (auto simp: endpoint_params_def no_route_possible_def split: option.splits)

text \<open>From the endpoints to the request: the function sends \<open>journey_query\<close>.\<close>

lemma build_journey_request:
  assumes "\<not> no_route_possible origin destination"
  shows "build_journey ev now origin destination prefs =
     ebind (arrival_of now prefs) (\<lambda>arrival.
     ebind (bvg_get ev ''/journeys'' (journey_query origin destination prefs arrival)) (\<lambda>data.
     ebind (py_get data ''journeys'') (\<lambda>js.
     if \<not> truthy (py_or js (JList [])) then Inr JNull
     else py_first (py_or js (JList [])))))"
proof (cases "str_truthy (loc_id origin) \<and> str_truthy (loc_id destination)")
  case True
  then show ?thesis
    by (simp add: build_journey_def endpoint_params_def journey_query_def arrival_of_def)
next
  case False
  with assms obtain a b c d
    where "loc_coords origin = Some (a, b)" "loc_coords destination = Some (c, d)"
    by (auto simp: no_route_possible_def)
  with False show ?thesis
    by (auto simp: build_journey_def endpoint_params_def journey_query_def arrival_of_def)
qed

text \<open>
  C7. When no route is possible, \<^verbatim>\<open>build_journey\<close> returns the absent result whatever the
  surroundings are: no answer of a service enters. Otherwise, when the arrival time of
  the preferences does not raise and the routing service answers the request
  \<open>journey_query\<close> (by identifiers when both endpoints carry one, by coordinates and
  names otherwise) with an object whose \<^verbatim>\<open>journeys\<close> are the list \<open>its\<close> of itineraries,
  none of them \<^verbatim>\<open>null\<close>: the result is absent exactly when the list is empty, and is the
  first itinerary otherwise.
\<close>

theorem build_journey_outcome:
  assumes "arrival_of now prefs = Inr arrival"
    and "bvg_get ev ''/journeys'' (journey_query origin destination prefs arrival)
           = Inr (JDict kvs)"
    and "py_or (field kvs ''journeys'') (JList []) = JList its"
    and "JNull \<notin> set its"
  shows "(build_journey ev now origin destination prefs = Inr JNull
            \<longleftrightarrow> no_route_possible origin destination \<or> its = [])
     \<and> (\<not> no_route_possible origin destination \<and> its \<noteq> [] \<longrightarrow>
          build_journey ev now origin destination prefs = Inr (hd its))
     \<and> (no_route_possible origin destination \<longrightarrow>
          build_journey ev' now' origin destination prefs' = Inr JNull)"
proof -
  have skip: "build_journey e n origin destination p = Inr JNull"
    if "no_route_possible origin destination" for e n p
    using that endpoint_params_None[of origin destination] by (simp add: build_journey_def)
  have run: "build_journey ev now origin destination prefs
      = (if its = [] then Inr JNull else Inr (hd its))"
    if "\<not> no_route_possible origin destination"
    using assms(1,2,3)
    by (cases its)
      (simp_all add: build_journey_request[OF that] ebind_def py_get_field del: py_get.simps)
  have nn: "hd its \<noteq> JNull" if "its \<noteq> []"
    using that assms(4) by (cases its) auto
  show ?thesis
    using skip run nn by (cases "no_route_possible origin destination") auto
qed

text \<open>
  Both endpoints with identifiers and two itineraries in the answer: the first itinerary.
  A coordinate on one side and only an identifier on the other: absent, also when the
  service has itineraries to offer.
\<close>

theorem build_journey_outcome_witness:
  "arrival_of (at_time 100 7 0) None = Inr None
   \<and> bvg_get (ex_env (answering (JDict [(''journeys'', JList two_itineraries)]))) ''/journeys''
       (journey_query home_stop campus_stop None None)
       = Inr (JDict [(''journeys'', JList two_itineraries)])
   \<and> py_or (field [(''journeys'', JList two_itineraries)] ''journeys'') (JList [])
       = JList two_itineraries
   \<and> JNull \<notin> set two_itineraries
   \<and> \<not> no_route_possible home_stop campus_stop
   \<and> build_journey (ex_env (answering (JDict [(''journeys'', JList two_itineraries)])))
        (at_time 100 7 0) home_stop campus_stop None
       = Inr (JDict [(''legs'', JList [one_leg])])
   \<and> journey_query home_stop campus_stop None None
       = [(''results'', PVal (JStr ''3'')), (''polylines'', PVal (JStr ''false'')),
          (''from'', PVal (JStr ''900000230999'')), (''to'', PVal (JStr ''900000245027'')),
          (''products[subway]'', PVal (JStr ''true'')),
          (''products[suburban]'', PVal (JStr ''true'')),
          (''products[regional]'', PVal (JStr ''true'')),
          (''products[tram]'', PVal (JStr ''true'')),
          (''products[bus]'', PVal (JStr ''true''))]
   \<and> no_route_possible home_point campus_stop
   \<and> build_journey (ex_env (answering (JDict [(''journeys'', JList two_itineraries)])))
        (at_time 100 7 0) home_point campus_stop None
       = Inr JNull"
proof -
  let ?ev = "ex_env (answering (JDict [(''journeys'', JList two_itineraries)]))"
  have a: "arrival_of (at_time 100 7 0) None = Inr None"
    by (simp add: arrival_of_def build_arrival_datetime_def)
  have b: "bvg_get ?ev ''/journeys'' q = Inr (JDict [(''journeys'', JList two_itineraries)])"
    for q
    by (simp add: bvg_get_def ex_env_def answering_def)
  have c: "py_or (field [(''journeys'', JList two_itineraries)] ''journeys'') (JList [])
      = JList two_itineraries"
    by (simp add: field_def py_or_def two_itineraries_def)
  have d: "JNull \<notin> set two_itineraries"
    by (simp add: two_itineraries_def)
  have n: "\<not> no_route_possible home_stop campus_stop" "no_route_possible home_point campus_stop"
    by (simp_all add: no_route_possible_def home_stop_def campus_stop_def home_point_def)
  have h: "two_itineraries \<noteq> []" "hd two_itineraries = JDict [(''legs'', JList [one_leg])]"
    by (simp_all add: two_itineraries_def)
  have q: "journey_query home_stop campus_stop None None
       = [(''results'', PVal (JStr ''3'')), (''polylines'', PVal (JStr ''false'')),
          (''from'', PVal (JStr ''900000230999'')), (''to'', PVal (JStr ''900000245027'')),
          (''products[subway]'', PVal (JStr ''true'')),
          (''products[suburban]'', PVal (JStr ''true'')),
          (''products[regional]'', PVal (JStr ''true'')),
          (''products[tram]'', PVal (JStr ''true'')),
          (''products[bus]'', PVal (JStr ''true''))]"
    by (simp add: journey_query_def home_stop_def campus_stop_def bool_param_def pref_flag_def)
  from build_journey_outcome[OF a b c d, of home_stop campus_stop]
    build_journey_outcome[OF a b c d, of home_point campus_stop ?ev "at_time 100 7 0" None]
  show ?thesis
    using a b c d n h by (simp add: q)
qed

end
